theory Spec2Isabelle
  imports Complex_Main "HOL-Library.Word" "HOL-Library.Log_Nat"
begin

section \<open>Data model of the battle simulator (main.go)\<close>

text \<open>
  Go's \<open>int\<close> is a 64-bit two's complement integer on the platforms the program
  targets: it is modelled as a 64-bit word, read with \<open>sint\<close>; the comparisons
  of the source are the signed ones (\<open><s\<close>, \<open>\<le>s\<close>).
\<close>

type_synonym i64 = "64 word"

text \<open>
  A \<open>float64\<close> is modelled by the rational number it denotes. Comparisons of
  floats are comparisons of these rationals; arithmetic rounds, see \<open>fl64\<close> below.
\<close>

type_synonym f64 = rat

record Tower =
  Type :: string
  HP :: i64
  ATK :: i64
  DEF :: i64
  CRIT :: f64
  MaxHP :: i64

record CardStats =
  ElixirCost :: i64
  BaseDamage :: i64
  HitPoints :: i64
  CritChance :: f64

text \<open>\<open>clash.Card\<close>: the two fields the battle reads.\<close>

record Card =
  Name :: string
  Level :: i64

section \<open>Formatting an integer with the verb \<open>%d\<close>\<close>

definition digit_char :: "nat \<Rightarrow> char" where
  "digit_char d = ''0123456789'' ! d"

function show_nat :: "nat \<Rightarrow> string" where
  "show_nat n = (if n < 10 then [digit_char n] else show_nat (n div 10) @ [digit_char (n mod 10)])"
  by pat_completeness auto
termination
  by (relation "measure id") auto

declare show_nat.simps [simp del]

definition show_int :: "int \<Rightarrow> string" where
  "show_int i = (if i < 0 then CHR ''-'' # show_nat (nat (- i)) else show_nat (nat i))"

section \<open>Combat state: applying damage and the King Tower test\<close>

definition targetOrder :: "string list" where
  "targetOrder = [''Guard Tower 1'', ''Guard Tower 2'', ''King Tower'']"

text \<open>
  The body of the inner loop at a tower that matches: \<open>HP -= damage\<close>, then the
  clamp \<open>if HP < 0 then HP = 0\<close>.
\<close>

definition damaged :: "Tower \<Rightarrow> i64 \<Rightarrow> Tower" where
  "damaged t damage =
     (let hp = HP t - damage in t\<lparr>HP := (if hp <s 0 then 0 else hp)\<rparr>)"

definition descriptor :: "Tower \<Rightarrow> string" where
  "descriptor t = Type t @ '' (HP now '' @ show_int (sint (HP t)) @ '')''"

text \<open>
  The inner loop of \<open>applyDamage\<close> for one target type: the first tower of the
  slice that has this type and positive hit points is damaged and the function
  returns; \<open>None\<close> when the loop ends without a match.
\<close>

fun hitFirst :: "string \<Rightarrow> i64 \<Rightarrow> Tower list \<Rightarrow> (Tower list \<times> string) option" where
  "hitFirst targetType damage [] = None"
| "hitFirst targetType damage (tower # rest) =
     (if Type tower = targetType \<and> 0 <s HP tower
      then Some (damaged tower damage # rest, descriptor (damaged tower damage))
      else (case hitFirst targetType damage rest of
              None \<Rightarrow> None
            | Some (rest', r) \<Rightarrow> Some (tower # rest', r)))"

text \<open>The outer loop over the target types, and the fall-through return.\<close>

fun applyOrder :: "string list \<Rightarrow> Tower list \<Rightarrow> i64 \<Rightarrow> Tower list \<times> string" where
  "applyOrder [] towers damage = (towers, ''No towers left'')"
| "applyOrder (targetType # types) towers damage =
     (case hitFirst targetType damage towers of
        Some r \<Rightarrow> r
      | None \<Rightarrow> applyOrder types towers damage)"

text \<open>
  \<open>applyDamage\<close> takes a pointer to the slice and updates it in place: the model
  returns the updated slice together with the returned string.
\<close>

definition applyDamage :: "Tower list \<Rightarrow> i64 \<Rightarrow> Tower list \<times> string" where
  "applyDamage towers damage = applyOrder targetOrder towers damage"

fun isKingTowerDestroyed :: "Tower list \<Rightarrow> bool" where
  "isKingTowerDestroyed [] = False"
| "isKingTowerDestroyed (tower # rest) =
     (if Type tower = ''King Tower'' \<and> HP tower \<le>s 0 then True
      else isKingTowerDestroyed rest)"

section \<open>Floating-point arithmetic\<close>

text \<open>
  A \<open>float64\<close> operation computes the exact result and rounds it to the nearest
  number with a 53-bit significand, a tie going to the even significand (IEEE 754
  binary64, the only rounding mode of Go). \<open>fl64\<close> is that rounding on the
  rationals. It leaves the exponent unbounded: every value computed below is 0 or
  has a magnitude between \<open>2\<^sup>-\<^sup>6\<close> and \<open>2\<^sup>6\<^sup>5\<close>, far inside the range of normal numbers.
\<close>

definition pow2 :: "int \<Rightarrow> rat" where
  "pow2 e = (if 0 \<le> e then 2 ^ nat e else 1 / 2 ^ nat (- e))"

definition roundEven :: "rat \<Rightarrow> int" where
  "roundEven q =
     (let f = \<lfloor>q\<rfloor>; r = q - of_int f
      in if r < 1 / 2 then f else if 1 / 2 < r then f + 1 else if even f then f else f + 1)"

text \<open>
  \<open>ilog2 q\<close> is the binary exponent of a positive \<open>q\<close>, the integer \<open>k\<close> with
  \<open>2\<^sup>k \<le> q < 2\<^sup>k\<^sup>+\<^sup>1\<close>; \<open>bitlen n\<close> is the number of binary digits of \<open>n\<close>.
\<close>

definition ilog2 :: "rat \<Rightarrow> int" where
  "ilog2 q = (if 1 \<le> q then bitlen \<lfloor>q\<rfloor> - 1 else - bitlen (\<lceil>1 / q\<rceil> - 1))"

definition fl64 :: "rat \<Rightarrow> f64" where
  "fl64 q =
     (if q = 0 then 0
      else let e = ilog2 \<bar>q\<bar> - 52;
               m = roundEven (\<bar>q\<bar> / pow2 e)
           in sgn q * of_int m * pow2 e)"

definition fmul :: "f64 \<Rightarrow> f64 \<Rightarrow> f64" where
  "fmul x y = fl64 (x * y)"

definition fadd :: "f64 \<Rightarrow> f64 \<Rightarrow> f64" where
  "fadd x y = fl64 (x + y)"

definition fsub :: "f64 \<Rightarrow> f64 \<Rightarrow> f64" where
  "fsub x y = fl64 (x - y)"

text \<open>The conversion \<open>float64(n)\<close> of an \<open>int\<close>.\<close>

definition i2f :: "i64 \<Rightarrow> f64" where
  "i2f n = fl64 (of_int (sint n))"

text \<open>
  The conversion \<open>int(x)\<close> of a \<open>float64\<close> discards the fraction (it truncates
  towards zero). When the truncated value does not fit an \<open>int\<close> the language
  leaves the result to the implementation: the model takes that result from a
  parameter \<open>oor\<close>, about which nothing is assumed.
\<close>

definition toZero :: "rat \<Rightarrow> int" where
  "toZero x = (if 0 \<le> x then \<lfloor>x\<rfloor> else \<lceil>x\<rceil>)"

definition f2i :: "(f64 \<Rightarrow> i64) \<Rightarrow> f64 \<Rightarrow> i64" where
  "f2i oor x =
     (let n = toZero x
      in if - (2 ^ 63) \<le> n \<and> n < 2 ^ 63 then word_of_int n else oor x)"

text \<open>
  One implementation: on x86-64 the conversion instruction yields the smallest
  integer for every value out of range.
\<close>

definition oorAmd64 :: "f64 \<Rightarrow> i64" where
  "oorAmd64 x = - 9223372036854775808"

section \<open>The card catalogue\<close>

definition cardDatabase :: "string \<Rightarrow> CardStats option" where
  "cardDatabase = map_of
     [(''Giant'', \<lparr>ElixirCost = 5, BaseDamage = 140, HitPoints = 2500, CritChance = fl64 (5 / 100)\<rparr>),
      (''Musketeer'', \<lparr>ElixirCost = 4, BaseDamage = 100, HitPoints = 600, CritChance = fl64 (10 / 100)\<rparr>),
      (''Fireball'', \<lparr>ElixirCost = 3, BaseDamage = 200, HitPoints = 0, CritChance = fl64 (15 / 100)\<rparr>),
      (''Archers'', \<lparr>ElixirCost = 3, BaseDamage = 120, HitPoints = 350, CritChance = fl64 (8 / 100)\<rparr>),
      (''Knight'', \<lparr>ElixirCost = 3, BaseDamage = 200, HitPoints = 800, CritChance = fl64 (8 / 100)\<rparr>),
      (''Arrows'', \<lparr>ElixirCost = 2, BaseDamage = 100, HitPoints = 0, CritChance = fl64 (10 / 100)\<rparr>),
      (''Goblin Barrel'', \<lparr>ElixirCost = 3, BaseDamage = 60, HitPoints = 150, CritChance = fl64 (7 / 100)\<rparr>),
      (''Minions'', \<lparr>ElixirCost = 3, BaseDamage = 70, HitPoints = 200, CritChance = fl64 (9 / 100)\<rparr>)]"

section \<open>The damage model\<close>

text \<open>
  The random numbers one call of \<open>calculateDamage\<close> (and, for the opponent, of
  \<open>simulateEnemyTurn\<close>) draws from the global generator are a parameter:
  \<open>intn21\<close> for \<open>rand.Intn(21)\<close>, \<open>float1\<close> and \<open>float2\<close> for the two calls of
  \<open>rand.Float64()\<close>, \<open>intnDeck\<close> for \<open>rand.Intn(len(deck))\<close>. \<open>rand.Intn(n)\<close>
  returns a number below \<open>n\<close>: the model reduces the number it is given modulo \<open>n\<close>.
\<close>

record Draws =
  intn21 :: nat
  float1 :: f64
  float2 :: f64
  intnDeck :: nat

definition maxInt :: "i64 \<Rightarrow> i64 \<Rightarrow> i64" where
  "maxInt a b = (if b <s a then a else b)"

definition minFloat :: "f64 \<Rightarrow> f64 \<Rightarrow> f64" where
  "minFloat a b = (if a < b then a else b)"

text \<open>
  The loop of \<open>calculateDamage\<close> over the target towers: it starts from the
  default chance and takes the chance of the first tower of the slice with
  positive hit points.
\<close>

fun towerCritLoop :: "f64 \<Rightarrow> Tower list \<Rightarrow> f64" where
  "towerCritLoop towerCritChance [] = towerCritChance"
| "towerCritLoop towerCritChance (tower # rest) =
     (if 0 <s HP tower then CRIT tower else towerCritLoop towerCritChance rest)"

definition critMultiplier :: "bool \<Rightarrow> bool \<Rightarrow> f64" where
  "critMultiplier cardCrit towerCrit =
     (let m0 = 1;
          m1 = (if cardCrit then fmul m0 (fl64 (15 / 10)) else m0);
          m2 = (if towerCrit then fmul m1 (fl64 (12 / 10)) else m1)
      in m2)"

definition calculateDamage ::
    "(f64 \<Rightarrow> i64) \<Rightarrow> Draws \<Rightarrow> Card \<Rightarrow> CardStats \<Rightarrow> Tower list \<Rightarrow> i64 \<times> bool \<times> bool" where
  "calculateDamage oor rnd crd stats targetTowers =
     (let damage = BaseDamage stats + (Level crd - 1) * 10;
          randomFactor = word_of_nat (intn21 rnd mod 21) - 10;
          cardCrit = (float1 rnd < CritChance stats);
          towerCritChance = towerCritLoop (fl64 (5 / 100)) targetTowers;
          towerCrit = (float2 rnd < towerCritChance);
          totalDamage = f2i oor (fmul (i2f (damage + randomFactor)) (critMultiplier cardCrit towerCrit))
      in (maxInt 1 totalDamage, cardCrit, towerCrit))"

section \<open>Reading the player's choice\<close>

text \<open>
  \<open>parseInt\<close> calls \<open>fmt.Sscanf(s, "%d", &n)\<close>. The library scans an integer
  as follows: it skips leading white space (a newline is an error), fails at the
  end of the input, accepts one sign, then reads the longest run of the
  characters \<open>0\<close> to \<open>9\<close>, which must not be empty, and converts sign and run
  with \<open>strconv.ParseInt\<close> in base 10 and 64 bits. Whatever follows the run is
  left unread, and \<open>Sscanf\<close> does not look at it. \<open>None\<close> stands for a non-nil
  error.

  A Go string is a sequence of bytes, read as UTF-8. The white space of
  \<open>fmt\<close> and of \<open>unicode.IsSpace\<close> is the same set of characters: U+0009 to
  U+000D, U+0020, U+0085, U+00A0, U+1680, U+2000 to U+200A, U+2028, U+2029,
  U+202F, U+205F and U+3000. \<open>whiteSpace\<close> lists their encodings.
\<close>

definition whiteSpace :: "string list" where
  "whiteSpace =
     [[CHR 0x09], [CHR 0x0A], [CHR 0x0B], [CHR 0x0C], [CHR 0x0D], [CHR 0x20],
      [CHR 0xC2, CHR 0x85], [CHR 0xC2, CHR 0xA0],
      [CHR 0xE1, CHR 0x9A, CHR 0x80],
      [CHR 0xE2, CHR 0x80, CHR 0x80], [CHR 0xE2, CHR 0x80, CHR 0x81],
      [CHR 0xE2, CHR 0x80, CHR 0x82], [CHR 0xE2, CHR 0x80, CHR 0x83],
      [CHR 0xE2, CHR 0x80, CHR 0x84], [CHR 0xE2, CHR 0x80, CHR 0x85],
      [CHR 0xE2, CHR 0x80, CHR 0x86], [CHR 0xE2, CHR 0x80, CHR 0x87],
      [CHR 0xE2, CHR 0x80, CHR 0x88], [CHR 0xE2, CHR 0x80, CHR 0x89],
      [CHR 0xE2, CHR 0x80, CHR 0x8A],
      [CHR 0xE2, CHR 0x80, CHR 0xA8], [CHR 0xE2, CHR 0x80, CHR 0xA9],
      [CHR 0xE2, CHR 0x80, CHR 0xAF],
      [CHR 0xE2, CHR 0x81, CHR 0x9F],
      [CHR 0xE3, CHR 0x80, CHR 0x80]]"

text \<open>
  The number of bytes of the white space character at the front of a string,
  and at its end; 0 when there is none.
\<close>

definition leadingSpace :: "string \<Rightarrow> nat" where
  "leadingSpace s =
     (case filter (\<lambda>w. take (length w) s = w) whiteSpace of
        [] \<Rightarrow> 0
      | w # ws \<Rightarrow> length w)"

definition trailingSpace :: "string \<Rightarrow> nat" where
  "trailingSpace s =
     (case filter (\<lambda>w. length w \<le> length s \<and> drop (length s - length w) s = w) whiteSpace of
        [] \<Rightarrow> 0
      | w # ws \<Rightarrow> length w)"

definition isDigit :: "char \<Rightarrow> bool" where
  "isDigit c = (let n = (of_char c :: nat) in 48 \<le> n \<and> n \<le> 57)"

function skipSpace :: "string \<Rightarrow> string option" where
  "skipSpace s =
     (if s = [] then Some []
      else if hd s = CHR 0x0A then None
      else if leadingSpace s = 0 then Some s
      else skipSpace (drop (leadingSpace s) s))"
  by pat_completeness auto
termination
  by (relation "measure length") auto

declare skipSpace.simps [simp del]

text \<open>The value of a run of decimal digits.\<close>

definition digitsValue :: "string \<Rightarrow> nat" where
  "digitsValue ds = foldl (\<lambda>v c. 10 * v + (of_char c - 48)) 0 ds"

text \<open>
  \<open>strconv.ParseInt(tok, 10, 64)\<close>: an optional sign, then at least one
  character, all of them decimal digits; the value must fit 64 bits.
\<close>

definition strconvParseInt :: "string \<Rightarrow> i64 option" where
  "strconvParseInt tok =
     (let neg = (tok \<noteq> [] \<and> hd tok = CHR ''-'');
          ds = (if tok \<noteq> [] \<and> (hd tok = CHR ''+'' \<or> hd tok = CHR ''-'') then tl tok else tok);
          un = digitsValue ds
      in if ds = [] \<or> \<not> list_all isDigit ds then None
         else if \<not> neg \<and> un < 2 ^ 63 then Some (word_of_nat un)
         else if neg \<and> un \<le> 2 ^ 63 then Some (- word_of_nat un)
         else None)"

definition scanInt :: "string \<Rightarrow> i64 option" where
  "scanInt s =
     (case skipSpace s of
        None \<Rightarrow> None
      | Some r \<Rightarrow>
          if r = [] then None
          else let sgn = (if hd r = CHR ''+'' \<or> hd r = CHR ''-'' then [hd r] else []);
                   r1 = (if sgn = [] then r else tl r);
                   run = takeWhile isDigit r1
               in if run = [] then None else strconvParseInt (sgn @ run))"

definition parseInt :: "string \<Rightarrow> i64 option" where
  "parseInt s = scanInt s"

section \<open>The battle engine\<close>

record GameState =
  PlayerTowers :: "Tower list"
  EnemyTowers :: "Tower list"
  PlayerElixir :: f64
  EnemyElixir :: f64

text \<open>
  What \<open>playGame\<close> prints: a line of text (without its final newline), the
  line about missing elixir (its amount is printed with \<open>%.1f\<close>, kept here as
  the number), or the cleared screen followed by \<open>displayGameState\<close>.
\<close>

datatype printed =
  Line string
| NotEnoughElixir i64 f64
| Screen GameState

text \<open>
  The local variables of \<open>playGame\<close> that change in its loop: the game state,
  the replay, the text printed so far, and whether the two tickers were stopped.
\<close>

record Battle =
  state :: GameState
  Actions :: "string list"
  stdout :: "printed list"
  tickersStopped :: bool

text \<open>
  The arguments of \<open>playGame\<close> the loop reads. \<open>opponentDeck\<close> is the deck of
  the mock opponent when \<open>isTestMode && opponent != nil\<close>, else \<open>None\<close>.
\<close>

record Config =
  playerDeck :: "Card list"
  opponentDeck :: "Card list option"
  opponentName :: string
  oorConv :: "f64 \<Rightarrow> i64"

text \<open>The four return statements of the loop.\<close>

datatype outcome = Surrender | PlayerWin | OpponentWin | Draw

datatype result = Continue Battle | Return outcome Battle

definition initialState :: GameState where
  "initialState =
     \<lparr>PlayerTowers =
        [\<lparr>Type = ''Guard Tower 1'', HP = 1000, ATK = 300, DEF = 100, CRIT = fl64 (5 / 100), MaxHP = 1000\<rparr>,
         \<lparr>Type = ''Guard Tower 2'', HP = 1000, ATK = 300, DEF = 100, CRIT = fl64 (5 / 100), MaxHP = 1000\<rparr>,
         \<lparr>Type = ''King Tower'', HP = 2000, ATK = 500, DEF = 300, CRIT = fl64 (1 / 10), MaxHP = 2000\<rparr>],
      EnemyTowers =
        [\<lparr>Type = ''Guard Tower 1'', HP = 1000, ATK = 300, DEF = 100, CRIT = fl64 (5 / 100), MaxHP = 1000\<rparr>,
         \<lparr>Type = ''Guard Tower 2'', HP = 1000, ATK = 300, DEF = 100, CRIT = fl64 (5 / 100), MaxHP = 1000\<rparr>,
         \<lparr>Type = ''King Tower'', HP = 2000, ATK = 500, DEF = 300, CRIT = fl64 (1 / 10), MaxHP = 2000\<rparr>],
      PlayerElixir = 10,
      EnemyElixir = 10\<rparr>"

definition initialBattle :: Battle where
  "initialBattle = \<lparr>state = initialState, Actions = [], stdout = [], tickersStopped = False\<rparr>"

definition critText :: "bool \<Rightarrow> bool \<Rightarrow> string" where
  "critText cardCrit towerCrit =
     (if cardCrit \<and> towerCrit then '' (Double CRIT)''
      else if cardCrit then '' (Card CRIT)''
      else if towerCrit then '' (Tower CRIT)''
      else '''')"

definition simulateEnemyTurn ::
    "(f64 \<Rightarrow> i64) \<Rightarrow> Draws \<Rightarrow> Card list \<Rightarrow> f64 \<Rightarrow> string \<Rightarrow> Tower list
       \<Rightarrow> i64 \<times> bool \<times> bool \<times> string" where
  "simulateEnemyTurn oor rnd deck enemyElixir name targetTowers =
     (if enemyElixir < 3 \<or> length deck = 0
      then (0, False, False, name @ '' skipped turn (not enough elixir)'')
      else let crd = deck ! (intnDeck rnd mod length deck);
               stats = (case cardDatabase (Name crd) of
                          Some s \<Rightarrow> s
                        | None \<Rightarrow> \<lparr>ElixirCost = 0, BaseDamage = 50, HitPoints = 0,
                                    CritChance = fl64 (5 / 100)\<rparr>);
               (damage, cardCrit, towerCrit) = calculateDamage oor rnd crd stats targetTowers;
               action = name @ '' used '' @ Name crd @ '' (Level '' @ show_int (sint (Level crd)) @ '')''
           in (damage, cardCrit, towerCrit, action))"

text \<open>
  The lookup of the selected card in the catalogue, with the fallback entry of
  \<open>playGame\<close> for a card that is not there.
\<close>

definition lookupStats :: "Card \<Rightarrow> CardStats" where
  "lookupStats crd =
     (case cardDatabase (Name crd) of
        Some s \<Rightarrow> s
      | None \<Rightarrow> \<lparr>ElixirCost = 3, BaseDamage = 50, HitPoints = 100, CritChance = fl64 (5 / 100)\<rparr>)"

text \<open>The check after the \<open>select\<close> statement; \<open>late\<close> is \<open>time.Since(startTime) > 3*time.Minute\<close>.\<close>

definition drawCheck :: "bool \<Rightarrow> Battle \<Rightarrow> result" where
  "drawCheck late b =
     (if late
      then Return Draw
             (b\<lparr>stdout := stdout b @ [Line (CHR 0x0A # ''Match ended! Draw.'')],
                Actions := Actions b @ [''Match ended in a draw''],
                tickersStopped := True\<rparr>)
      else Continue b)"

text \<open>The case \<open><-quitChan\<close>.\<close>

definition onQuit :: "Battle \<Rightarrow> result" where
  "onQuit b =
     Return Surrender
       (b\<lparr>stdout := stdout b @ [Line ''You surrendered!''],
          Actions := Actions b @ [''Player surrendered''],
          tickersStopped := True\<rparr>)"

text \<open>
  The case \<open>input := <-inputChan\<close>. Its two \<open>continue\<close> statements go back to
  the head of the loop, past the check for a draw.
\<close>

definition onInput :: "Config \<Rightarrow> Draws \<Rightarrow> bool \<Rightarrow> string \<Rightarrow> Battle \<Rightarrow> result" where
  "onInput cfg rnd late input b =
     (let deck = playerDeck cfg;
          invalid = Continue
            (b\<lparr>stdout := stdout b @
                 [Line (''Invalid choice. Please select a number from 1 to '' @
                        show_int (int (length deck)))]\<rparr>)
      in case parseInt input of
           None \<Rightarrow> invalid
         | Some choice \<Rightarrow>
             if choice <s 1 \<or> int (length deck) < sint choice then invalid
             else
               let selectedCard = deck ! nat (sint choice - 1);
                   stats = lookupStats selectedCard
               in if PlayerElixir (state b) < i2f (ElixirCost stats)
                  then Continue
                         (b\<lparr>stdout := stdout b @
                              [NotEnoughElixir (ElixirCost stats) (PlayerElixir (state b))]\<rparr>)
                  else
                    let (damage, cardCrit, towerCrit) =
                          calculateDamage (oorConv cfg) rnd selectedCard stats (EnemyTowers (state b));
                        (towers, res) = applyDamage (EnemyTowers (state b)) damage;
                        st = (state b)\<lparr>EnemyTowers := towers,
                                PlayerElixir := fsub (PlayerElixir (state b)) (i2f (ElixirCost stats))\<rparr>;
                        used = Name selectedCard @ '' (Level '' @ show_int (sint (Level selectedCard)) @
                               '') dealing '' @ show_int (sint damage) @ '' damage'' @
                               critText cardCrit towerCrit @ '' to '' @ res;
                        b1 = b\<lparr>state := st,
                               Actions := Actions b @ [''Player used '' @ used],
                               stdout := stdout b @ [Screen st, Line (''You used '' @ used @ ''!'')]\<rparr>
                    in if isKingTowerDestroyed (EnemyTowers st)
                       then Return PlayerWin
                              (b1\<lparr>stdout := stdout b1 @
                                    [Line (CHR 0x0A #
                                       ''Congratulations! You destroyed the opponent's King Tower!'')],
                                  Actions := Actions b1 @ [''Player won the match''],
                                  tickersStopped := True\<rparr>)
                       else drawCheck late b1)"

text \<open>The case \<open><-elixirTick.C\<close>.\<close>

definition onElixirTick :: "bool \<Rightarrow> Battle \<Rightarrow> result" where
  "onElixirTick late b =
     (let st = (state b)\<lparr>PlayerElixir := minFloat (fadd (PlayerElixir (state b)) 1) 10,
                 EnemyElixir := minFloat (fadd (EnemyElixir (state b)) 1) 10\<rparr>
      in drawCheck late
           (b\<lparr>state := st,
              stdout := stdout b @
                [Screen st,
                 Line ''Select a card to attack (enter number from 1 to 8, or 0 to surrender): '']\<rparr>))"

text \<open>The case \<open><-enemyActionTick.C\<close>.\<close>

definition onEnemyTick :: "Config \<Rightarrow> Draws \<Rightarrow> bool \<Rightarrow> Battle \<Rightarrow> result" where
  "onEnemyTick cfg rnd late b =
     (if \<not> isKingTowerDestroyed (PlayerTowers (state b))
      then
        let enemyDeck = (case opponentDeck cfg of Some d \<Rightarrow> d | None \<Rightarrow> playerDeck cfg);
            (enemyDamage, cardCrit, towerCrit, enemyAction) =
              simulateEnemyTurn (oorConv cfg) rnd enemyDeck (EnemyElixir (state b))
                (opponentName cfg) (PlayerTowers (state b));
            b1 = (if 0 <s enemyDamage
                  then
                    let (towers, res) = applyDamage (PlayerTowers (state b)) enemyDamage;
                        st = (state b)\<lparr>PlayerTowers := towers,
                                EnemyElixir := fsub (EnemyElixir (state b)) 3\<rparr>;
                        dealt = '' dealing '' @ show_int (sint enemyDamage) @ '' damage'' @
                                critText cardCrit towerCrit @ '' to '' @ res
                    in b\<lparr>state := st,
                         Actions := Actions b @ [enemyAction @ dealt],
                         stdout := stdout b @
                           [Screen st,
                            Line (''Opponent '' @ opponentName cfg @ '' used a card'' @ dealt @ ''!'')]\<rparr>
                  else b)
        in if isKingTowerDestroyed (PlayerTowers (state b1))
           then Return OpponentWin
                  (b1\<lparr>stdout := stdout b1 @
                        [Line (CHR 0x0A # ''You lost! Your King Tower was destroyed.'')],
                      Actions := Actions b1 @ [''Opponent won the match''],
                      tickersStopped := True\<rparr>)
           else drawCheck late b1
      else drawCheck late b)"

text \<open>
  One iteration of the loop. An event is what the \<open>select\<close> statement receives;
  it comes with the random numbers the iteration draws and with the outcome of
  the comparison of the elapsed time with three minutes.
\<close>

datatype event = Quit | Input string | ElixirTick | EnemyTick

definition step :: "Config \<Rightarrow> Battle \<Rightarrow> event \<times> Draws \<times> bool \<Rightarrow> result" where
  "step cfg b e =
     (case e of (ev, rnd, late) \<Rightarrow>
        (case ev of
           Quit \<Rightarrow> onQuit b
         | Input input \<Rightarrow> onInput cfg rnd late input b
         | ElixirTick \<Rightarrow> onElixirTick late b
         | EnemyTick \<Rightarrow> onEnemyTick cfg rnd late b))"

text \<open>
  The loop over the events delivered so far: \<open>Return\<close> when one of them made
  \<open>playGame\<close> return, \<open>Continue\<close> when the loop is waiting for the next event.
\<close>

fun playGameLoop :: "Config \<Rightarrow> Battle \<Rightarrow> (event \<times> Draws \<times> bool) list \<Rightarrow> result" where
  "playGameLoop cfg b [] = Continue b"
| "playGameLoop cfg b (e # es) =
     (case step cfg b e of
        Continue b' \<Rightarrow> playGameLoop cfg b' es
      | Return oc b' \<Rightarrow> Return oc b')"

text \<open>The local variables as an iteration leaves them, whether or not it returns.\<close>

fun battleOf :: "result \<Rightarrow> Battle" where
  "battleOf (Continue b) = b"
| "battleOf (Return oc b) = b"

text \<open>
  The goroutine that reads the input. For every line it sends the line, trimmed
  of the white space at both ends by \<open>strings.TrimSpace\<close>,
  on \<open>inputChan\<close>, and then, when the line is \<open>0\<close>, \<open>true\<close> on \<open>quitChan\<close>, and
  ends. Both channels are unbuffered and the goroutine is their only sender, so
  the loop receives its messages in the order in which they are sent:
  \<open>readerMessages\<close> is that sequence for the lines read.
\<close>

function trimLeft :: "string \<Rightarrow> string" where
  "trimLeft s =
     (if s = [] \<or> leadingSpace s = 0 then s
      else trimLeft (drop (leadingSpace s) s))"
  by pat_completeness auto
termination
  by (relation "measure length") auto

function trimRight :: "string \<Rightarrow> string" where
  "trimRight s =
     (if s = [] \<or> trailingSpace s = 0 then s
      else trimRight (take (length s - trailingSpace s) s))"
  by pat_completeness auto
termination
  by (relation "measure length") auto

declare trimLeft.simps [simp del] trimRight.simps [simp del]

text \<open>\<open>strings.TrimSpace\<close>.\<close>

definition trimSpace :: "string \<Rightarrow> string" where
  "trimSpace s = trimRight (trimLeft s)"

fun readerMessages :: "string list \<Rightarrow> event list" where
  "readerMessages [] = []"
| "readerMessages (line # rest) =
     (let input = trimSpace line
      in Input input # (if input = ''0'' then [Quit] else readerMessages rest))"

section \<open>The target rule in the words of the specification\<close>

text \<open>
  The specification: the first tower, in the fixed order Guard Tower 1,
  Guard Tower 2, King Tower, whose hit points are above 0. \<open>specTarget\<close> gives
  its position in the slice, \<open>None\<close> when there is no such tower.
\<close>

definition alive :: "Tower \<Rightarrow> bool" where
  "alive t = (0 < sint (HP t))"

fun firstIndex :: "('a \<Rightarrow> bool) \<Rightarrow> 'a list \<Rightarrow> nat option" where
  "firstIndex P [] = None"
| "firstIndex P (x # xs) = (if P x then Some 0 else map_option Suc (firstIndex P xs))"

definition firstAliveOf :: "string \<Rightarrow> Tower list \<Rightarrow> nat option" where
  "firstAliveOf ty ts = firstIndex (\<lambda>t. Type t = ty \<and> alive t) ts"

definition specTarget :: "Tower list \<Rightarrow> nat option" where
  "specTarget ts =
     (case firstAliveOf ''Guard Tower 1'' ts of Some i \<Rightarrow> Some i | None \<Rightarrow>
      (case firstAliveOf ''Guard Tower 2'' ts of Some i \<Rightarrow> Some i | None \<Rightarrow>
       firstAliveOf ''King Tower'' ts))"

text \<open>The hit points left: the full amount is subtracted, and a negative result is 0.\<close>

definition clampedHP :: "Tower \<Rightarrow> i64 \<Rightarrow> i64" where
  "clampedHP t d = (if sint (HP t - d) < 0 then 0 else HP t - d)"


text \<open>
  The damage formula in the words of the specification: the multiplier is 1,
  times 1.5 for a critical hit of the card, times 1.2 for one of the tower (1.8
  for both), and the damage is the floor of base plus jitter times the
  multiplier, and at least 1. These are the numbers themselves, not their
  \<open>float64\<close> approximations.
\<close>

definition specMultiplier :: "bool \<Rightarrow> bool \<Rightarrow> rat" where
  "specMultiplier cardCrit towerCrit =
     (if cardCrit then 15 / 10 else 1) * (if towerCrit then 12 / 10 else 1)"

definition specDamage :: "int \<Rightarrow> int \<Rightarrow> int \<Rightarrow> bool \<Rightarrow> bool \<Rightarrow> int" where
  "specDamage baseDamage level jitter cardCrit towerCrit =
     max 1 \<lfloor>of_int (baseDamage + (level - 1) * 10 + jitter) * specMultiplier cardCrit towerCrit\<rfloor>"

text \<open>
  The elixir levels of the specification: a pool is a whole number from 0 to 10.
  On these numbers, and on the costs of the catalogue, the \<open>float64\<close> additions
  and subtractions of the loop are exact.
\<close>

definition isLevel :: "f64 \<Rightarrow> bool" where
  "isLevel e = (e \<in> {0, 1, 2, 3, 4, 5, 6, 7, 8, 9, 10})"

text \<open>Both pools at a level: the invariant of the loop.\<close>

definition levels :: "Battle \<Rightarrow> bool" where
  "levels b = (isLevel (PlayerElixir (state b)) \<and> isLevel (EnemyElixir (state b)))"

section \<open>Sample inputs\<close>

text \<open>
  The inputs at which the theorems below are instantiated: a deck of three cards
  against an opponent without a deck of its own, the draws that give jitter 0
  and no critical hit, and a battle in which the opponent is left with one hit
  point on its King Tower.
\<close>

definition sampleConfig :: Config where
  "sampleConfig =
     \<lparr>playerDeck = [\<lparr>Name = ''Knight'', Level = 1\<rparr>, \<lparr>Name = ''Archers'', Level = 1\<rparr>,
                    \<lparr>Name = ''Giant'', Level = 1\<rparr>],
      opponentDeck = None, opponentName = ''Bot'', oorConv = oorAmd64\<rparr>"

definition sampleDraws :: Draws where
  "sampleDraws = \<lparr>intn21 = 10, float1 = 1 / 2, float2 = 1 / 2, intnDeck = 0\<rparr>"

definition lastStand :: Battle where
  "lastStand =
     initialBattle\<lparr>state := initialState\<lparr>EnemyTowers :=
       [\<lparr>Type = ''Guard Tower 1'', HP = 0, ATK = 300, DEF = 100, CRIT = fl64 (5 / 100), MaxHP = 1000\<rparr>,
        \<lparr>Type = ''Guard Tower 2'', HP = 0, ATK = 300, DEF = 100, CRIT = fl64 (5 / 100), MaxHP = 1000\<rparr>,
        \<lparr>Type = ''King Tower'', HP = 1, ATK = 500, DEF = 300, CRIT = fl64 (1 / 10), MaxHP = 2000\<rparr>]\<rparr>\<rparr>"


section \<open>Properties of damage application\<close>

lemma firstIndex_Some:
  "firstIndex P xs = Some i \<Longrightarrow> i < length xs \<and> P (xs ! i) \<and> (\<forall>j<i. \<not> P (xs ! j))"
proof (induction xs arbitrary: i)
  case Nil then show ?case by simp
next
  case (Cons x xs)
  show ?case
  proof (cases "P x")
    case True with Cons.prems show ?thesis by simp
  next
    case False
    with Cons.prems obtain k where k: "firstIndex P xs = Some k" "i = Suc k" by auto
    from Cons.IH [OF k(1)] False k(2) show ?thesis by (auto simp: less_Suc_eq_0_disj)
  qed
qed

lemma firstIndex_None: "firstIndex P xs = None \<longleftrightarrow> (\<forall>x\<in>set xs. \<not> P x)"
  by (induction xs) auto

lemma hitFirst_firstIndex:
  "hitFirst ty d ts =
     (case firstAliveOf ty ts of
        None \<Rightarrow> None
      | Some i \<Rightarrow> Some (ts[i := damaged (ts ! i) d], descriptor (damaged (ts ! i) d)))"
  by (induction ts) (auto simp: firstAliveOf_def alive_def word_sless_alt split: option.splits)

lemma applyDamage_specTarget:
  "applyDamage ts d =
     (case specTarget ts of
        None \<Rightarrow> (ts, ''No towers left'')
      | Some i \<Rightarrow> (ts[i := damaged (ts ! i) d], descriptor (damaged (ts ! i) d)))"
  by (simp add: applyDamage_def targetOrder_def specTarget_def hitFirst_firstIndex
      split: option.splits)

lemma damaged_eq: "damaged t d = t\<lparr>HP := clampedHP t d\<rparr>"
  by (simp add: damaged_def clampedHP_def Let_def word_sless_alt)

lemma clampedHP_nonneg: "0 \<le> sint (clampedHP t d)"
  by (simp add: clampedHP_def)

lemma sint_sub_no_overflow:
  fixes a b :: i64
  assumes "- (2 ^ 63) \<le> sint a - sint b" "sint a - sint b < 2 ^ 63"
  shows "sint (a - b) = sint a - sint b"
  using assms by (simp add: sint_word_ariths signed_take_bit_int_eq_self)

lemma clampedHP_max:
  assumes "0 < sint (HP t)" "0 \<le> sint d"
  shows "sint (clampedHP t d) = max 0 (sint (HP t) - sint d)"
proof -
  have "sint (HP t) < 2 ^ 63" "- (2 ^ 63) \<le> sint d" "sint d < 2 ^ 63"
    using sint_lt [of "HP t"] sint_ge [of d] sint_lt [of d] by simp_all
  with assms have "sint (HP t - d) = sint (HP t) - sint d"
    by (intro sint_sub_no_overflow) simp_all
  then show ?thesis by (simp add: clampedHP_def)
qed

lemma specTarget_none_alive:
  assumes "\<forall>t\<in>set ts. sint (HP t) \<le> 0"
  shows "specTarget ts = None"
proof -
  have "firstAliveOf ty ts = None" for ty
    using assms by (auto simp: firstAliveOf_def firstIndex_None alive_def)
  then show ?thesis by (simp add: specTarget_def)
qed

text \<open>
  Claim C1. For every slice of towers and every damage amount, \<open>applyDamage\<close>
  damages exactly the first tower, in the order Guard Tower 1, Guard Tower 2,
  King Tower, whose hit points are above 0: it subtracts the full amount, puts
  0 in place of a negative result, and returns the descriptor made of that
  tower's name and its resulting hit points. The resulting hit points are never
  negative, and they are \<open>max 0 (HP - damage)\<close> for every damage that is not
  negative. When no tower has hit points above 0 the result is the text
  \<open>No towers left\<close> and the slice is unchanged.
\<close>

theorem applyDamage_first_standing:
  "applyDamage ts d =
     (case specTarget ts of
        None \<Rightarrow> (ts, ''No towers left'')
      | Some i \<Rightarrow>
          (ts[i := (ts ! i)\<lparr>HP := clampedHP (ts ! i) d\<rparr>],
           Type (ts ! i) @ '' (HP now '' @ show_int (sint (clampedHP (ts ! i) d)) @ '')''))
   \<and> 0 \<le> sint (clampedHP t d)
   \<and> (0 < sint (HP t) \<and> 0 \<le> sint d \<longrightarrow>
        sint (clampedHP t d) = max 0 (sint (HP t) - sint d))
   \<and> ((\<forall>t\<in>set ts. sint (HP t) \<le> 0) \<longrightarrow> applyDamage ts d = (ts, ''No towers left''))"
proof -
  have "applyDamage ts d =
     (case specTarget ts of
        None \<Rightarrow> (ts, ''No towers left'')
      | Some i \<Rightarrow>
          (ts[i := (ts ! i)\<lparr>HP := clampedHP (ts ! i) d\<rparr>],
           Type (ts ! i) @ '' (HP now '' @ show_int (sint (clampedHP (ts ! i) d)) @ '')''))"
    by (simp add: applyDamage_specTarget damaged_eq descriptor_def split: option.splits)
  moreover have "(\<forall>t\<in>set ts. sint (HP t) \<le> 0) \<longrightarrow> applyDamage ts d = (ts, ''No towers left'')"
    by (simp add: applyDamage_specTarget specTarget_none_alive)
  ultimately show ?thesis
    using clampedHP_nonneg [of t d] clampedHP_max [of t d] by blast
qed

theorem applyDamage_first_standing_witness:
  "applyDamage
     [\<lparr>Type = ''Guard Tower 1'', HP = 0, ATK = 300, DEF = 100, CRIT = 1 / 20, MaxHP = 1000\<rparr>,
      \<lparr>Type = ''King Tower'', HP = 0, ATK = 500, DEF = 300, CRIT = 1 / 10, MaxHP = 2000\<rparr>] 300
   = ([\<lparr>Type = ''Guard Tower 1'', HP = 0, ATK = 300, DEF = 100, CRIT = 1 / 20, MaxHP = 1000\<rparr>,
       \<lparr>Type = ''King Tower'', HP = 0, ATK = 500, DEF = 300, CRIT = 1 / 10, MaxHP = 2000\<rparr>],
      ''No towers left'')
   \<and> sint (clampedHP
        \<lparr>Type = ''Guard Tower 1'', HP = 1000, ATK = 300, DEF = 100, CRIT = 1 / 20, MaxHP = 1000\<rparr>
        300) = 700"
proof -
  let ?g = "\<lparr>Type = ''Guard Tower 1'', HP = 0, ATK = 300, DEF = 100, CRIT = 1 / 20, MaxHP = 1000\<rparr>"
  let ?k = "\<lparr>Type = ''King Tower'', HP = 0, ATK = 500, DEF = 300, CRIT = 1 / 10, MaxHP = 2000\<rparr>"
  let ?t = "\<lparr>Type = ''Guard Tower 1'', HP = 1000, ATK = 300, DEF = 100, CRIT = 1 / 20, MaxHP = 1000\<rparr>"
  note th = applyDamage_first_standing [of "[?g, ?k]" 300 ?t]
  have h1: "\<forall>t\<in>set [?g, ?k]. sint (HP t) \<le> 0" by simp
  have h2: "0 < sint (HP ?t) \<and> 0 \<le> sint (300 :: i64)" by simp
  from th h1 have "applyDamage [?g, ?k] 300 = ([?g, ?k], ''No towers left'')" by blast
  moreover from th h2 have "sint (clampedHP ?t 300) = max 0 (sint (HP ?t) - sint (300 :: i64))"
    by blast
  ultimately show ?thesis by simp
qed

lemma specTarget_Some:
  assumes "specTarget ts = Some i"
  shows "i < length ts \<and> alive (ts ! i)"
proof -
  from assms obtain ty where "firstAliveOf ty ts = Some i"
    by (auto simp: specTarget_def split: option.splits)
  then show ?thesis
    unfolding firstAliveOf_def by (auto dest: firstIndex_Some)
qed

lemma clampedHP_le:
  assumes "alive t" "0 \<le> sint d"
  shows "sint (clampedHP t d) \<le> sint (HP t)"
  using clampedHP_max [of t d] assms by (simp add: alive_def)

text \<open>
  Claim C10, as the code has it. For every slice of towers and every damage
  amount, \<open>applyDamage\<close> keeps the length of the slice, changes at most one
  tower, and changes nothing but the field \<open>HP\<close> of a tower; and for every
  damage amount that is not negative, no tower's hit points increase.
\<close>

theorem applyDamage_frame:
  "length (fst (applyDamage ts d)) = length ts
   \<and> (\<exists>i. \<forall>j<length ts. j \<noteq> i \<longrightarrow> fst (applyDamage ts d) ! j = ts ! j)
   \<and> (\<forall>j<length ts.
         fst (applyDamage ts d) ! j = (ts ! j)\<lparr>HP := HP (fst (applyDamage ts d) ! j)\<rparr>)
   \<and> (0 \<le> sint d \<longrightarrow>
         (\<forall>j<length ts. sint (HP (fst (applyDamage ts d) ! j)) \<le> sint (HP (ts ! j))))"
proof (cases "specTarget ts")
  case None
  then show ?thesis by (simp add: applyDamage_specTarget)
next
  case (Some i)
  then have i: "i < length ts" "alive (ts ! i)" using specTarget_Some by blast+
  have eq: "fst (applyDamage ts d) = ts[i := (ts ! i)\<lparr>HP := clampedHP (ts ! i) d\<rparr>]"
    by (simp add: applyDamage_specTarget Some damaged_eq)
  have "\<forall>j<length ts. j \<noteq> i \<longrightarrow> fst (applyDamage ts d) ! j = ts ! j"
    by (simp add: eq)
  then have ex: "\<exists>i. \<forall>j<length ts. j \<noteq> i \<longrightarrow> fst (applyDamage ts d) ! j = ts ! j"
    by blast
  have fields: "\<forall>j<length ts.
      fst (applyDamage ts d) ! j = (ts ! j)\<lparr>HP := HP (fst (applyDamage ts d) ! j)\<rparr>"
  proof (intro allI impI)
    fix j assume "j < length ts"
    then show "fst (applyDamage ts d) ! j = (ts ! j)\<lparr>HP := HP (fst (applyDamage ts d) ! j)\<rparr>"
      by (cases "j = i") (simp_all add: eq)
  qed
  have mono: "0 \<le> sint d \<longrightarrow>
      (\<forall>j<length ts. sint (HP (fst (applyDamage ts d) ! j)) \<le> sint (HP (ts ! j)))"
  proof (intro allI impI)
    fix j assume "0 \<le> sint d" "j < length ts"
    then show "sint (HP (fst (applyDamage ts d) ! j)) \<le> sint (HP (ts ! j))"
      using i clampedHP_le [of "ts ! i" d] by (cases "j = i") (simp_all add: eq)
  qed
  show ?thesis using ex fields mono by (simp add: eq)
qed

theorem applyDamage_frame_witness:
  "sint (HP (fst (applyDamage
      [\<lparr>Type = ''Guard Tower 1'', HP = 0, ATK = 300, DEF = 100, CRIT = 1 / 20, MaxHP = 1000\<rparr>,
       \<lparr>Type = ''Guard Tower 2'', HP = 500, ATK = 300, DEF = 100, CRIT = 1 / 20, MaxHP = 1000\<rparr>,
       \<lparr>Type = ''King Tower'', HP = 2000, ATK = 500, DEF = 300, CRIT = 1 / 10, MaxHP = 2000\<rparr>]
      300) ! 1)) \<le> 500"
proof -
  let ?ts = "[\<lparr>Type = ''Guard Tower 1'', HP = 0, ATK = 300, DEF = 100, CRIT = 1 / 20, MaxHP = 1000\<rparr>,
       \<lparr>Type = ''Guard Tower 2'', HP = 500, ATK = 300, DEF = 100, CRIT = 1 / 20, MaxHP = 1000\<rparr>,
       \<lparr>Type = ''King Tower'', HP = 2000, ATK = 500, DEF = 300, CRIT = 1 / 10, MaxHP = 2000\<rparr>]"
  note th = applyDamage_frame [of ?ts 300]
  have "0 \<le> sint (300 :: i64)" by simp
  with th have "\<forall>j<length ?ts. sint (HP (fst (applyDamage ?ts 300) ! j)) \<le> sint (HP (?ts ! j))"
    by blast
  then have "1 < length ?ts \<longrightarrow>
      sint (HP (fst (applyDamage ?ts 300) ! 1)) \<le> sint (HP (?ts ! 1))"
    by blast
  then show ?thesis by simp
qed

text \<open>
  The claim C10 as the specification words it, for every damage amount, fails
  at a negative amount: \<open>HP -= damage\<close> then adds to the hit points.
\<close>

theorem applyDamage_negative_damage_counterexample:
  "\<not> sint (HP (fst (applyDamage
        [\<lparr>Type = ''King Tower'', HP = 10, ATK = 500, DEF = 300, CRIT = 1 / 10, MaxHP = 2000\<rparr>]
        (- 5)) ! 0))
      \<le> sint (HP ([\<lparr>Type = ''King Tower'', HP = 10, ATK = 500, DEF = 300, CRIT = 1 / 10,
                      MaxHP = 2000\<rparr>] ! 0))"
  by (simp add: applyDamage_def targetOrder_def damaged_def Let_def word_sless_alt)

section \<open>Properties of the damage model\<close>

lemma fl64_005: "fl64 (1 / 20) = 3602879701896397 / 72057594037927936" by code_simp
lemma fl64_01: "fl64 (1 / 10) = 3602879701896397 / 36028797018963968" by code_simp

lemma maxInt_one: "sint (maxInt 1 w) = max 1 (sint w)"
  by (simp add: maxInt_def word_sless_alt)

lemma sint_word_of_int_64:
  assumes "- (2 ^ 63) \<le> k" "k < 2 ^ 63"
  shows "sint (word_of_int k :: i64) = k"
  using assms by (simp add: sint_sbintrunc' signed_take_bit_int_eq_self)

lemma calculateDamage_fst:
  "fst (calculateDamage oor rnd crd stats ts) =
     maxInt 1 (f2i oor (fmul (i2f (BaseDamage stats + (Level crd - 1) * 10 + (word_of_nat (intn21 rnd mod 21) - 10)))
        (critMultiplier (float1 rnd < CritChance stats) (float2 rnd < towerCritLoop (fl64 (5 / 100)) ts))))"
  by (simp add: calculateDamage_def Let_def)

lemma calculateDamage_snd:
  "snd (calculateDamage oor rnd crd stats ts) =
     (float1 rnd < CritChance stats, float2 rnd < towerCritLoop (fl64 (5 / 100)) ts)"
  by (simp add: calculateDamage_def Let_def)

lemma towerCritLoop_firstIndex:
  "towerCritLoop dflt ts = (case firstIndex alive ts of None \<Rightarrow> dflt | Some i \<Rightarrow> CRIT (ts ! i))"
  by (induction ts) (auto simp: alive_def word_sless_alt split: option.splits)

lemma calculateDamage_ge_one: "1 \<le> sint (fst (calculateDamage oor rnd crd stats ts))"
  by (simp add: calculateDamage_fst maxInt_one)

text \<open>
  Claim C5, as the code has it. The chance used for the tower's critical hit is
  the \<open>CRIT\<close> of the first tower of the defending slice whose hit points are
  above 0 (the engine keeps its slices in the order Guard Tower 1, Guard Tower 2,
  King Tower); when no tower of the slice has hit points above 0 it is the
  default 0.05, the chance of a guard tower.
\<close>

theorem towerCrit_chance:
  "snd (snd (calculateDamage oor rnd crd stats ts)) =
     (float2 rnd < (case firstIndex alive ts of None \<Rightarrow> fl64 (5 / 100) | Some i \<Rightarrow> CRIT (ts ! i)))
   \<and> snd (snd (calculateDamage oor rnd crd stats [g1, g2, k])) =
     (float2 rnd < (if alive g1 then CRIT g1 else if alive g2 then CRIT g2
                    else if alive k then CRIT k else fl64 (5 / 100)))
   \<and> fl64 (5 / 100) = 3602879701896397 / 72057594037927936"
proof -
  have a: "snd (snd (calculateDamage oor rnd crd stats ts)) =
     (float2 rnd < (case firstIndex alive ts of None \<Rightarrow> fl64 (5 / 100) | Some i \<Rightarrow> CRIT (ts ! i)))"
    for ts
    unfolding calculateDamage_snd towerCritLoop_firstIndex by simp
  have b: "fl64 (5 / 100) = 3602879701896397 / 72057594037927936"
    using fl64_005 by simp
  have c: "(case firstIndex alive [g1, g2, k] of None \<Rightarrow> fl64 (5 / 100) | Some i \<Rightarrow> CRIT ([g1, g2, k] ! i))
      = (if alive g1 then CRIT g1 else if alive g2 then CRIT g2
                    else if alive k then CRIT k else fl64 (5 / 100))"
    by simp
  show ?thesis using a [of ts] a [of "[g1, g2, k]"] b unfolding c by blast
qed

text \<open>
  The claim C5 as the specification words it fails when no tower stands: with a
  draw of 0.075 the King Tower's chance 0.1 would give a critical hit, and the
  code, which uses 0.05, gives none.
\<close>

theorem towerCrit_default_counterexample:
  "\<not> snd (snd (calculateDamage oorAmd64 \<lparr>intn21 = 10, float1 = 1 / 2, float2 = 3 / 40, intnDeck = 0\<rparr>
        \<lparr>Name = ''Knight'', Level = 1\<rparr>
        \<lparr>ElixirCost = 3, BaseDamage = 200, HitPoints = 800, CritChance = fl64 (8 / 100)\<rparr>
        [\<lparr>Type = ''Guard Tower 1'', HP = 0, ATK = 300, DEF = 100, CRIT = fl64 (5 / 100), MaxHP = 1000\<rparr>,
         \<lparr>Type = ''Guard Tower 2'', HP = 0, ATK = 300, DEF = 100, CRIT = fl64 (5 / 100), MaxHP = 1000\<rparr>,
         \<lparr>Type = ''King Tower'', HP = 0, ATK = 500, DEF = 300, CRIT = fl64 (1 / 10), MaxHP = 2000\<rparr>]))
   \<and> 3 / 40 < CRIT \<lparr>Type = ''King Tower'', HP = 0, ATK = 500, DEF = 300, CRIT = fl64 (1 / 10), MaxHP = 2000\<rparr>"
  by (simp add: calculateDamage_snd fl64_005 fl64_01)

lemma fl64_2_25: "fl64 (2 / 25) = 5764607523034235 / 72057594037927936" by code_simp
lemma fl64_200: "fl64 200 = 200" by code_simp
lemma fl64_100: "fl64 100 = 100" by code_simp
lemma critMultiplier_values:
  "critMultiplier False False = 1"
  "critMultiplier True False = 3 / 2"
  "critMultiplier False True = 5404319552844595 / 4503599627370496"
  "critMultiplier True True = 2026619832316723 / 1125899906842624"
  by code_simp+
lemma fmul_100_double:
  "fmul 100 (2026619832316723 / 1125899906842624) = 6333186975989759 / 35184372088832"
  by code_simp
lemma toZero_179: "toZero (6333186975989759 / 35184372088832) = 179" by code_simp

text \<open>
  Claim C7 on the code: a double critical hit on base damage 100, level 1 and
  jitter 0. The multiplier is the \<open>float64\<close> product of 1.5 and the \<open>float64\<close>
  nearest to 1.2, which is 1.7999999999999998 and not 1.8; the product with 100
  is below 180 and the conversion to \<open>int\<close> gives 179.
\<close>

theorem calculateDamage_double_crit_100:
  "calculateDamage oorAmd64 \<lparr>intn21 = 10, float1 = 0, float2 = 0, intnDeck = 0\<rparr>
     \<lparr>Name = ''Musketeer'', Level = 1\<rparr>
     \<lparr>ElixirCost = 4, BaseDamage = 100, HitPoints = 600, CritChance = fl64 (10 / 100)\<rparr>
     (EnemyTowers initialState) = (179, True, True)
   \<and> critMultiplier True True = 2026619832316723 / 1125899906842624
   \<and> critMultiplier True True < 18 / 10"
  by (simp add: calculateDamage_def initialState_def Let_def i2f_def f2i_def maxInt_def
       fl64_005 fl64_01 fl64_100 critMultiplier_values fmul_100_double toZero_179 word_sless_alt)

text \<open>
  Claim C2 on the code. The damage returned by \<open>calculateDamage\<close> is at least
  1 for every card, statistics, towers and draws. It is not always the value of
  the specification's formula: for the Musketeer of the catalogue (base damage
  100) at level 1, jitter 0 and both critical hits, the formula gives
  \<open>max 1 \<lfloor>100 * 1.8\<rfloor> = 180\<close> and the code returns 179.
\<close>

theorem calculateDamage_formula_double_crit:
  "1 \<le> sint (fst (calculateDamage oor rnd crd stats ts))
   \<and> sint (fst (calculateDamage oorAmd64 \<lparr>intn21 = 10, float1 = 0, float2 = 0, intnDeck = 0\<rparr>
        \<lparr>Name = ''Musketeer'', Level = 1\<rparr> (lookupStats \<lparr>Name = ''Musketeer'', Level = 1\<rparr>)
        (EnemyTowers initialState))) = 179
   \<and> BaseDamage (lookupStats \<lparr>Name = ''Musketeer'', Level = 1\<rparr>) = 100
   \<and> specDamage 100 1 0 True True = 180"
proof -
  have "calculateDamage oorAmd64 \<lparr>intn21 = 10, float1 = 0, float2 = 0, intnDeck = 0\<rparr>
        \<lparr>Name = ''Musketeer'', Level = 1\<rparr> (lookupStats \<lparr>Name = ''Musketeer'', Level = 1\<rparr>)
        (EnemyTowers initialState) = (179, True, True)"
    by (simp add: lookupStats_def cardDatabase_def calculateDamage_def initialState_def Let_def
        i2f_def f2i_def maxInt_def fl64_005 fl64_01 fl64_100 critMultiplier_values fmul_100_double
        toZero_179 word_sless_alt)
  moreover have "specDamage 100 1 0 True True = 180"
    by (simp add: specDamage_def specMultiplier_def)
  moreover have "BaseDamage (lookupStats \<lparr>Name = ''Musketeer'', Level = 1\<rparr>) = 100"
    by (simp add: lookupStats_def cardDatabase_def)
  ultimately show ?thesis
    using calculateDamage_ge_one [of oor rnd crd stats ts] by simp
qed

section \<open>Properties of the battle engine\<close>

lemma fl64_small:
  "fl64 1 = 1" "fl64 2 = 2" "fl64 3 = 3" "fl64 4 = 4" "fl64 5 = 5" "fl64 6 = 6"
  "fl64 7 = 7" "fl64 8 = 8" "fl64 9 = 9" "fl64 10 = 10" "fl64 11 = 11"
  by code_simp+

lemma fl64_zero: "fl64 0 = 0"
  by (simp add: fl64_def)

lemma i2f_costs: "i2f 2 = 2" "i2f 3 = 3" "i2f 4 = 4" "i2f 5 = 5"
  by (simp_all add: i2f_def fl64_small)

lemma lookupStats_cost: "ElixirCost (lookupStats crd) \<in> {2, 3, 4, 5}"
  by (simp add: lookupStats_def cardDatabase_def)

lemma regen_level:
  assumes "isLevel e"
  shows "isLevel (minFloat (fadd e 1) 10) \<and> minFloat (fadd e 1) 10 = min (e + 1) 10"
  using assms unfolding isLevel_def
  by (auto simp: minFloat_def fadd_def fl64_small)

lemma spend_level:
  assumes "isLevel e" "c \<in> {2, 3, 4, 5}" "\<not> e < i2f c"
  shows "isLevel (fsub e (i2f c)) \<and> fsub e (i2f c) = e - of_int (sint c)"
  using assms unfolding isLevel_def
  by (auto simp: fsub_def fl64_small fl64_zero i2f_costs)

lemma enemy_spend_level:
  assumes "isLevel e" "\<not> e < 3"
  shows "isLevel (fsub e 3) \<and> fsub e 3 = e - 3"
  using assms unfolding isLevel_def
  by (auto simp: fsub_def fl64_small fl64_zero)

lemma state_drawCheck: "state (battleOf (drawCheck late b)) = state b"
  by (simp add: drawCheck_def)

lemma simulateEnemyTurn_damage:
  "0 <s fst (simulateEnemyTurn oor rnd deck e name ts) \<Longrightarrow> \<not> e < 3"
  by (auto simp: simulateEnemyTurn_def split: if_splits)

lemma onElixirTick_state:
  "state (battleOf (onElixirTick late b)) =
     (state b)\<lparr>PlayerElixir := minFloat (fadd (PlayerElixir (state b)) 1) 10,
               EnemyElixir := minFloat (fadd (EnemyElixir (state b)) 1) 10\<rparr>"
  by (simp add: onElixirTick_def Let_def state_drawCheck)

lemma onEnemyTick_state:
  "state (battleOf (onEnemyTick cfg rnd late b)) =
     (let enemyDeck = (case opponentDeck cfg of Some d \<Rightarrow> d | None \<Rightarrow> playerDeck cfg);
          enemyDamage = fst (simulateEnemyTurn (oorConv cfg) rnd enemyDeck (EnemyElixir (state b))
                               (opponentName cfg) (PlayerTowers (state b)))
      in if \<not> isKingTowerDestroyed (PlayerTowers (state b)) \<and> 0 <s enemyDamage
         then (state b)\<lparr>PlayerTowers := fst (applyDamage (PlayerTowers (state b)) enemyDamage),
                        EnemyElixir := fsub (EnemyElixir (state b)) 3\<rparr>
         else state b)"
  by (simp add: onEnemyTick_def Let_def state_drawCheck split: prod.splits)

lemma onInput_state:
  "state (battleOf (onInput cfg rnd late input b)) =
     (case parseInt input of
        None \<Rightarrow> state b
      | Some choice \<Rightarrow>
          if choice <s 1 \<or> int (length (playerDeck cfg)) < sint choice then state b
          else let stats = lookupStats (playerDeck cfg ! nat (sint choice - 1))
               in if PlayerElixir (state b) < i2f (ElixirCost stats) then state b
                  else (state b)\<lparr>EnemyTowers :=
                          fst (applyDamage (EnemyTowers (state b))
                                 (fst (calculateDamage (oorConv cfg) rnd
                                        (playerDeck cfg ! nat (sint choice - 1)) stats
                                        (EnemyTowers (state b))))),
                        PlayerElixir := fsub (PlayerElixir (state b)) (i2f (ElixirCost stats))\<rparr>)"
  by (simp add: onInput_def Let_def state_drawCheck split: option.splits prod.splits)

lemma step_levels:
  assumes "levels b"
  shows "levels (battleOf (step cfg b e))"
proof -
  obtain ev rnd late where e: "e = (ev, rnd, late)" by (cases e) auto
  show ?thesis
  proof (cases ev)
    case Quit
    with assms e show ?thesis by (simp add: step_def onQuit_def levels_def)
  next
    case (Input input)
    have sl: "isLevel (fsub e (i2f (ElixirCost (lookupStats crd))))"
      if "isLevel e" "\<not> e < i2f (ElixirCost (lookupStats crd))" for e crd
      using spend_level [OF that(1) lookupStats_cost that(2)] by blast
    have "levels (battleOf (onInput cfg rnd late input b))"
      using assms sl
      unfolding levels_def onInput_state
      by (auto simp: Let_def split: option.splits)
    with Input e show ?thesis by (simp add: step_def)
  next
    case ElixirTick
    have rl: "isLevel (minFloat (fadd e 1) 10)" if "isLevel e" for e
      using regen_level [OF that] by blast
    have "levels (battleOf (onElixirTick late b))"
      using assms rl unfolding levels_def onElixirTick_state by simp
    with ElixirTick e show ?thesis by (simp add: step_def)
  next
    case EnemyTick
    have el: "isLevel (fsub e 3)" if "isLevel e" "\<not> e < 3" for e
      using enemy_spend_level [OF that] by blast
    have "levels (battleOf (onEnemyTick cfg rnd late b))"
      using assms el simulateEnemyTurn_damage
      unfolding levels_def onEnemyTick_state
      by (auto simp: Let_def)
    with EnemyTick e show ?thesis by (simp add: step_def)
  qed
qed

lemma playGameLoop_levels:
  assumes "levels b"
  shows "levels (battleOf (playGameLoop cfg b es))"
  using assms
proof (induction es arbitrary: b)
  case Nil
  then show ?case by simp
next
  case (Cons e es)
  from step_levels [OF Cons.prems, of cfg e] Cons.IH show ?case
    by (cases "step cfg b e") auto
qed

lemma levels_initial: "levels initialBattle"
  by (simp add: levels_def initialBattle_def initialState_def isLevel_def)

lemma isLevel_range: "isLevel e \<Longrightarrow> 0 \<le> e \<and> e \<le> 10"
  by (auto simp: isLevel_def)

lemma simulateEnemyTurn_plays:
  assumes "\<not> e < 3" "deck \<noteq> []"
  shows "0 <s fst (simulateEnemyTurn oor rnd deck e name ts)"
proof -
  have "0 < sint (fst (calculateDamage oor rnd crd stats ts))" for crd stats
    using maxInt_one [of "f2i oor x" for x] by (simp add: calculateDamage_fst)
  then show ?thesis
    using assms by (simp add: simulateEnemyTurn_def Let_def word_sless_alt split: prod.splits)
      (metis fst_conv)
qed

lemma onInput_rejected:
  assumes "parseInt input = Some choice" "\<not> choice <s 1"
    "\<not> int (length (playerDeck cfg)) < sint choice"
    "PlayerElixir (state b) < i2f (ElixirCost (lookupStats (playerDeck cfg ! nat (sint choice - 1))))"
  shows "onInput cfg rnd late input b =
     Continue (b\<lparr>stdout := stdout b @
        [NotEnoughElixir (ElixirCost (lookupStats (playerDeck cfg ! nat (sint choice - 1))))
           (PlayerElixir (state b))]\<rparr>)"
  using assms by (simp add: onInput_def Let_def)

lemma isKingTowerDestroyed_iff:
  "isKingTowerDestroyed ts \<longleftrightarrow> (\<exists>t\<in>set ts. Type t = ''King Tower'' \<and> sint (HP t) \<le> 0)"
  by (induction ts) (auto simp: word_sle_eq)

lemma drawCheck_not_win: "drawCheck late b \<noteq> Return PlayerWin b'" "drawCheck late b \<noteq> Return OpponentWin b'"
  by (simp_all add: drawCheck_def)

lemma step_PlayerWin:
  assumes "step cfg b e = Return PlayerWin b'"
  shows "isKingTowerDestroyed (EnemyTowers (state b'))"
proof -
  obtain ev rnd late where e: "e = (ev, rnd, late)" by (cases e) auto
  show ?thesis
  proof (cases ev)
    case (Input input)
    with assms e have "onInput cfg rnd late input b = Return PlayerWin b'" by (simp add: step_def)
    then show ?thesis
      by (auto simp: onInput_def Let_def drawCheck_not_win split: option.splits if_splits prod.splits)
  next
    case EnemyTick
    with assms e have "onEnemyTick cfg rnd late b = Return PlayerWin b'" by (simp add: step_def)
    then show ?thesis
      by (auto simp: onEnemyTick_def Let_def drawCheck_not_win split: if_splits prod.splits)
  qed (use assms e in \<open>auto simp: step_def onQuit_def onElixirTick_def Let_def drawCheck_not_win\<close>)
qed

lemma step_OpponentWin:
  assumes "step cfg b e = Return OpponentWin b'"
  shows "isKingTowerDestroyed (PlayerTowers (state b'))"
proof -
  obtain ev rnd late where e: "e = (ev, rnd, late)" by (cases e) auto
  show ?thesis
  proof (cases ev)
    case (Input input)
    with assms e have "onInput cfg rnd late input b = Return OpponentWin b'" by (simp add: step_def)
    then show ?thesis
      by (auto simp: onInput_def Let_def drawCheck_not_win split: option.splits if_splits prod.splits)
  next
    case EnemyTick
    with assms e have "onEnemyTick cfg rnd late b = Return OpponentWin b'" by (simp add: step_def)
    then show ?thesis
      by (auto simp: onEnemyTick_def Let_def drawCheck_not_win split: if_splits prod.splits)
  qed (use assms e in \<open>auto simp: step_def onQuit_def onElixirTick_def Let_def drawCheck_not_win\<close>)
qed

text \<open>Evaluation at the sample inputs.\<close>

lemma parse_samples: "parseInt ''1'' = Some 1" "parseInt ''3'' = Some 3" "parseInt ''3abc'' = Some 3"
    "parseInt ''0'' = Some 0"
  by (simp_all add: parseInt_def scanInt_def strconvParseInt_def skipSpace.simps leadingSpace_def
       whiteSpace_def isDigit_def digitsValue_def Let_def)



lemma sample_no_crit:
  assumes "\<forall>t\<in>set ts. CRIT t \<le> 1 / 2" "CritChance stats \<le> 1 / 2"
  shows "snd (calculateDamage oor sampleDraws crd stats ts) = (False, False)"
proof -
  have "towerCritLoop d ts \<le> 1 / 2" if "d \<le> 1 / 2" for d
    using assms(1) that by (induction ts) auto
  from this [of "fl64 (5 / 100)"] have "\<not> 1 / 2 < towerCritLoop (fl64 (5 / 100)) ts"
    by (simp add: fl64_005)
  with assms(2) show ?thesis by (simp add: calculateDamage_snd sampleDraws_def)
qed

lemma sample_damage:
  assumes "snd (calculateDamage oor sampleDraws crd stats ts) = (False, False)"
    "i2f (BaseDamage stats + (Level crd - 1) * 10) = of_int d" "fl64 (of_int d) = of_int d"
    "1 \<le> d" "d < 2 ^ 63"
  shows "calculateDamage oor sampleDraws crd stats ts = (word_of_int d, False, False)"
proof -
  have c: "float1 sampleDraws < CritChance stats = False"
          "float2 sampleDraws < towerCritLoop (fl64 (5 / 100)) ts = False"
    using assms(1) by (simp_all add: calculateDamage_snd)
  have n: "BaseDamage stats + (Level crd - 1) * 10 + (word_of_nat (intn21 sampleDraws mod 21) - 10)
      = BaseDamage stats + (Level crd - 1) * 10"
    by (simp add: sampleDraws_def)
  have x: "fmul (i2f (BaseDamage stats + (Level crd - 1) * 10)) (critMultiplier False False) = of_int d"
    using assms(2,3) by (simp add: critMultiplier_values fmul_def)
  have t: "toZero (of_int d) = d"
    using assms(4) by (simp add: toZero_def)
  have s: "sint (word_of_int d :: i64) = d"
    using assms(4,5) by (intro sint_word_of_int_64) simp_all
  have "f2i oor (of_int d) = word_of_int d"
    using assms(4,5) by (simp add: f2i_def t Let_def)
  then have "fst (calculateDamage oor sampleDraws crd stats ts) = word_of_int d"
    unfolding calculateDamage_fst c n x
    using s assms(4) by (simp add: maxInt_def word_sless_alt)
  then show ?thesis using assms(1) by (simp add: prod_eq_iff)
qed

lemma calc_knight:
  assumes "\<forall>t\<in>set ts. CRIT t \<le> 1 / 2"
  shows "calculateDamage oor sampleDraws \<lparr>Name = ''Knight'', Level = 1\<rparr>
           (lookupStats \<lparr>Name = ''Knight'', Level = 1\<rparr>) ts = (200, False, False)"
proof -
  have "calculateDamage oor sampleDraws \<lparr>Name = ''Knight'', Level = 1\<rparr>
           (lookupStats \<lparr>Name = ''Knight'', Level = 1\<rparr>) ts = (word_of_int 200, False, False)"
    by (rule sample_damage [OF sample_no_crit [OF assms]])
       (simp_all add: lookupStats_def cardDatabase_def fl64_2_25 i2f_def fl64_200)
  then show ?thesis by simp
qed


lemma step_Input: "step cfg b (Input input, rnd, late) = onInput cfg rnd late input b"
  and step_ElixirTick: "step cfg b (ElixirTick, rnd, late) = onElixirTick late b"
  and step_EnemyTick: "step cfg b (EnemyTick, rnd, late) = onEnemyTick cfg rnd late b"
  and step_Quit: "step cfg b (Quit, rnd, late) = onQuit b"
  by (simp_all add: step_def)

text \<open>
  Claim C3. After every sequence of events, from the start of the battle, each
  elixir pool lies between 0 and 10. A regeneration tick adds 1, capped at 10.
  A play of the player whose card costs more than the pool holds is rejected:
  the iteration prints the message about missing elixir and continues, and
  elixir, towers and replay are unchanged.
\<close>

theorem elixir_invariant:
  "0 \<le> PlayerElixir (state (battleOf (playGameLoop cfg initialBattle es)))
   \<and> PlayerElixir (state (battleOf (playGameLoop cfg initialBattle es))) \<le> 10
   \<and> 0 \<le> EnemyElixir (state (battleOf (playGameLoop cfg initialBattle es)))
   \<and> EnemyElixir (state (battleOf (playGameLoop cfg initialBattle es))) \<le> 10
   \<and> (levels b \<longrightarrow>
         PlayerElixir (state (battleOf (step cfg b (ElixirTick, rnd, late))))
           = min (PlayerElixir (state b) + 1) 10
       \<and> EnemyElixir (state (battleOf (step cfg b (ElixirTick, rnd, late))))
           = min (EnemyElixir (state b) + 1) 10)
   \<and> (parseInt input = Some choice \<and> 1 \<le> sint choice \<and> sint choice \<le> int (length (playerDeck cfg))
        \<and> PlayerElixir (state b) < i2f (ElixirCost (lookupStats (playerDeck cfg ! nat (sint choice - 1))))
       \<longrightarrow> step cfg b (Input input, rnd, late) =
             Continue (b\<lparr>stdout := stdout b @
               [NotEnoughElixir (ElixirCost (lookupStats (playerDeck cfg ! nat (sint choice - 1))))
                  (PlayerElixir (state b))]\<rparr>))"
proof -
  have "levels (battleOf (playGameLoop cfg initialBattle es))"
    by (rule playGameLoop_levels [OF levels_initial])
  then have bounds: "0 \<le> PlayerElixir (state (battleOf (playGameLoop cfg initialBattle es)))
      \<and> PlayerElixir (state (battleOf (playGameLoop cfg initialBattle es))) \<le> 10
      \<and> 0 \<le> EnemyElixir (state (battleOf (playGameLoop cfg initialBattle es)))
      \<and> EnemyElixir (state (battleOf (playGameLoop cfg initialBattle es))) \<le> 10"
    using isLevel_range unfolding levels_def by blast
  have regen: "levels b \<longrightarrow>
         PlayerElixir (state (battleOf (step cfg b (ElixirTick, rnd, late))))
           = min (PlayerElixir (state b) + 1) 10
       \<and> EnemyElixir (state (battleOf (step cfg b (ElixirTick, rnd, late))))
           = min (EnemyElixir (state b) + 1) 10"
    using regen_level unfolding levels_def step_ElixirTick onElixirTick_state by simp
  have reject: "parseInt input = Some choice \<and> 1 \<le> sint choice \<and> sint choice \<le> int (length (playerDeck cfg))
        \<and> PlayerElixir (state b) < i2f (ElixirCost (lookupStats (playerDeck cfg ! nat (sint choice - 1))))
       \<longrightarrow> step cfg b (Input input, rnd, late) =
             Continue (b\<lparr>stdout := stdout b @
               [NotEnoughElixir (ElixirCost (lookupStats (playerDeck cfg ! nat (sint choice - 1))))
                  (PlayerElixir (state b))]\<rparr>)"
    unfolding step_Input using onInput_rejected [of input choice cfg b rnd late]
    by (auto simp: word_sless_alt)
  from bounds regen reject show ?thesis by blast
qed

theorem elixir_invariant_witness:
  "step sampleConfig (initialBattle\<lparr>state := initialState\<lparr>PlayerElixir := 2\<rparr>\<rparr>)
     (Input ''3'', sampleDraws, False)
   = Continue (initialBattle\<lparr>state := initialState\<lparr>PlayerElixir := 2\<rparr>,
                 stdout := [NotEnoughElixir 5 2]\<rparr>)
   \<and> PlayerElixir (state (battleOf (step sampleConfig initialBattle (ElixirTick, sampleDraws, False)))) = 10"
proof -
  let ?b = "initialBattle\<lparr>state := initialState\<lparr>PlayerElixir := 2\<rparr>\<rparr>"
  note th = elixir_invariant [of sampleConfig "[]" initialBattle sampleDraws False "''3''" 3]
  note th2 = elixir_invariant [of sampleConfig "[]" ?b sampleDraws False "''3''" 3]
  have h1: "levels initialBattle" by (rule levels_initial)
  have h2: "parseInt ''3'' = Some 3 \<and> 1 \<le> sint (3 :: i64) \<and> sint (3 :: i64) \<le> int (length (playerDeck sampleConfig))
      \<and> PlayerElixir (state ?b) < i2f (ElixirCost (lookupStats (playerDeck sampleConfig ! nat (sint (3 :: i64) - 1))))"
    by (simp add: parse_samples sampleConfig_def lookupStats_def cardDatabase_def i2f_costs)
  have c: "ElixirCost (lookupStats (playerDeck sampleConfig ! nat (sint (3 :: i64) - 1))) = 5"
    by (simp add: sampleConfig_def lookupStats_def cardDatabase_def)
  from th h1 have "PlayerElixir (state (battleOf (step sampleConfig initialBattle (ElixirTick, sampleDraws, False))))
           = min (PlayerElixir (state initialBattle) + 1) 10" by blast
  moreover from th2 h2 have "step sampleConfig ?b (Input ''3'', sampleDraws, False) =
             Continue (?b\<lparr>stdout := stdout ?b @
               [NotEnoughElixir (ElixirCost (lookupStats (playerDeck sampleConfig ! nat (sint (3 :: i64) - 1))))
                  (PlayerElixir (state ?b))]\<rparr>)" by blast
  ultimately show ?thesis
    unfolding c by (simp add: initialBattle_def initialState_def)
qed

text \<open>
  Claim C6. When the opponent plays a card (the damage returned by
  \<open>simulateEnemyTurn\<close> is above 0) the iteration subtracts 3 from the opponent's
  pool, whatever the card; a play of the player that is not rejected subtracts
  the cost the catalogue lists for the selected card. On the levels of the
  pools these \<open>float64\<close> subtractions are exact.
\<close>

theorem elixir_deduction:
  "(\<not> isKingTowerDestroyed (PlayerTowers (state b))
      \<and> 0 <s fst (simulateEnemyTurn (oorConv cfg) rnd
                    (case opponentDeck cfg of Some d \<Rightarrow> d | None \<Rightarrow> playerDeck cfg)
                    (EnemyElixir (state b)) (opponentName cfg) (PlayerTowers (state b)))
     \<longrightarrow> EnemyElixir (state (battleOf (step cfg b (EnemyTick, rnd, late)))) = fsub (EnemyElixir (state b)) 3
         \<and> (isLevel (EnemyElixir (state b)) \<longrightarrow>
              EnemyElixir (state (battleOf (step cfg b (EnemyTick, rnd, late)))) = EnemyElixir (state b) - 3))
   \<and> (parseInt input = Some choice \<and> 1 \<le> sint choice \<and> sint choice \<le> int (length (playerDeck cfg))
        \<and> \<not> PlayerElixir (state b) < i2f (ElixirCost (lookupStats (playerDeck cfg ! nat (sint choice - 1))))
       \<longrightarrow> PlayerElixir (state (battleOf (step cfg b (Input input, rnd, late))))
             = fsub (PlayerElixir (state b)) (i2f (ElixirCost (lookupStats (playerDeck cfg ! nat (sint choice - 1)))))
           \<and> (isLevel (PlayerElixir (state b)) \<longrightarrow>
                PlayerElixir (state (battleOf (step cfg b (Input input, rnd, late))))
                  = PlayerElixir (state b)
                    - of_int (sint (ElixirCost (lookupStats (playerDeck cfg ! nat (sint choice - 1)))))))"
proof -
  let ?dmg = "fst (simulateEnemyTurn (oorConv cfg) rnd
                    (case opponentDeck cfg of Some d \<Rightarrow> d | None \<Rightarrow> playerDeck cfg)
                    (EnemyElixir (state b)) (opponentName cfg) (PlayerTowers (state b)))"
  let ?cost = "ElixirCost (lookupStats (playerDeck cfg ! nat (sint choice - 1)))"
  have enemy: "EnemyElixir (state (battleOf (step cfg b (EnemyTick, rnd, late)))) = fsub (EnemyElixir (state b)) 3
         \<and> (isLevel (EnemyElixir (state b)) \<longrightarrow>
              EnemyElixir (state (battleOf (step cfg b (EnemyTick, rnd, late)))) = EnemyElixir (state b) - 3)"
    if "\<not> isKingTowerDestroyed (PlayerTowers (state b))" "0 <s ?dmg"
  proof -
    have e: "EnemyElixir (state (battleOf (step cfg b (EnemyTick, rnd, late)))) = fsub (EnemyElixir (state b)) 3"
      using that unfolding step_EnemyTick onEnemyTick_state by (simp add: Let_def)
    have "\<not> EnemyElixir (state b) < 3"
      using that(2) by (rule simulateEnemyTurn_damage)
    then show ?thesis using e enemy_spend_level by simp
  qed
  have player: "PlayerElixir (state (battleOf (step cfg b (Input input, rnd, late))))
             = fsub (PlayerElixir (state b)) (i2f ?cost)
           \<and> (isLevel (PlayerElixir (state b)) \<longrightarrow>
                PlayerElixir (state (battleOf (step cfg b (Input input, rnd, late))))
                  = PlayerElixir (state b) - of_int (sint ?cost))"
    if "parseInt input = Some choice" "1 \<le> sint choice" "sint choice \<le> int (length (playerDeck cfg))"
       "\<not> PlayerElixir (state b) < i2f ?cost"
  proof -
    have e: "PlayerElixir (state (battleOf (step cfg b (Input input, rnd, late))))
             = fsub (PlayerElixir (state b)) (i2f ?cost)"
      using that unfolding step_Input onInput_state by (simp add: Let_def word_sless_alt)
    show ?thesis using e spend_level [OF _ lookupStats_cost that(4)] by simp
  qed
  from enemy player show ?thesis by blast
qed

theorem elixir_deduction_witness:
  "EnemyElixir (state (battleOf (step sampleConfig initialBattle (EnemyTick, sampleDraws, False)))) = 7
   \<and> PlayerElixir (state (battleOf (step sampleConfig initialBattle (Input ''3'', sampleDraws, False)))) = 5"
proof -
  note th = elixir_deduction [of initialBattle sampleConfig sampleDraws False "''3''" 3]
  have h1: "\<not> isKingTowerDestroyed (PlayerTowers (state initialBattle))"
    by (simp add: initialBattle_def initialState_def word_sle_eq)
  have h2: "0 <s fst (simulateEnemyTurn (oorConv sampleConfig) sampleDraws
                    (case opponentDeck sampleConfig of Some d \<Rightarrow> d | None \<Rightarrow> playerDeck sampleConfig)
                    (EnemyElixir (state initialBattle)) (opponentName sampleConfig)
                    (PlayerTowers (state initialBattle)))"
    by (rule simulateEnemyTurn_plays) (simp_all add: initialBattle_def initialState_def sampleConfig_def)
  have h3: "isLevel (EnemyElixir (state initialBattle))" "isLevel (PlayerElixir (state initialBattle))"
    using levels_initial by (simp_all add: levels_def)
  have c: "ElixirCost (lookupStats (playerDeck sampleConfig ! nat (sint (3 :: i64) - 1))) = 5"
    by (simp add: sampleConfig_def lookupStats_def cardDatabase_def)
  have h4: "parseInt ''3'' = Some 3 \<and> 1 \<le> sint (3 :: i64) \<and> sint (3 :: i64) \<le> int (length (playerDeck sampleConfig))
      \<and> \<not> PlayerElixir (state initialBattle)
            < i2f (ElixirCost (lookupStats (playerDeck sampleConfig ! nat (sint (3 :: i64) - 1))))"
    unfolding c by (simp add: parse_samples sampleConfig_def i2f_costs initialBattle_def initialState_def)
  from th h1 h2 h3(1) have "EnemyElixir (state (battleOf (step sampleConfig initialBattle (EnemyTick, sampleDraws, False))))
      = EnemyElixir (state initialBattle) - 3" by blast
  moreover from th h4 h3(2) have "PlayerElixir (state (battleOf (step sampleConfig initialBattle (Input ''3'', sampleDraws, False))))
      = PlayerElixir (state initialBattle)
        - of_int (sint (ElixirCost (lookupStats (playerDeck sampleConfig ! nat (sint (3 :: i64) - 1)))))"
    by blast
  ultimately show ?thesis
    unfolding c by (simp add: initialBattle_def initialState_def)
qed

lemma king_of_three:
  assumes "Type g1 = ''Guard Tower 1''" "Type g2 = ''Guard Tower 2''" "Type k = ''King Tower''"
  shows "isKingTowerDestroyed [g1, g2, k] \<longleftrightarrow> sint (HP k) \<le> 0"
  using assms by (simp add: word_sle_eq)

lemma drawCheck_early: "drawCheck False b = Continue b"
  by (simp add: drawCheck_def)

lemma onInput_continues:
  assumes "\<not> isKingTowerDestroyed (EnemyTowers (state (battleOf (onInput cfg rnd False input b))))"
  shows "onInput cfg rnd False input b = Continue (battleOf (onInput cfg rnd False input b))"
proof (cases "parseInt input")
  case None
  then show ?thesis by (simp add: onInput_def Let_def)
next
  case (Some choice)
  let ?c = "playerDeck cfg ! nat (sint choice - 1)"
  obtain damage cc tc where calc:
    "calculateDamage (oorConv cfg) rnd ?c (lookupStats ?c) (EnemyTowers (state b)) = (damage, cc, tc)"
    by (metis prod_cases3)
  obtain towers res where app: "applyDamage (EnemyTowers (state b)) damage = (towers, res)"
    by (metis surj_pair)
  show ?thesis
  proof (cases "isKingTowerDestroyed towers")
    case False
    with Some show ?thesis
      by (simp add: onInput_def Let_def calc app drawCheck_early)
  next
    case True
    with Some assms show ?thesis
      by (simp add: onInput_def Let_def calc app drawCheck_early split: if_splits)
  qed
qed

lemma onEnemyTick_continues:
  assumes "\<not> isKingTowerDestroyed (PlayerTowers (state (battleOf (onEnemyTick cfg rnd False b))))"
  shows "onEnemyTick cfg rnd False b = Continue (battleOf (onEnemyTick cfg rnd False b))"
proof -
  let ?deck = "case opponentDeck cfg of Some d \<Rightarrow> d | None \<Rightarrow> playerDeck cfg"
  obtain dmg cc tc act where sim:
    "simulateEnemyTurn (oorConv cfg) rnd ?deck (EnemyElixir (state b)) (opponentName cfg)
       (PlayerTowers (state b)) = (dmg, cc, tc, act)"
    by (metis prod_cases4)
  obtain towers res where app: "applyDamage (PlayerTowers (state b)) dmg = (towers, res)"
    by (metis surj_pair)
  show ?thesis
  proof (cases "isKingTowerDestroyed (PlayerTowers (state b))")
    case True
    then show ?thesis by (simp add: onEnemyTick_def drawCheck_early)
  next
    case False
    show ?thesis
    proof (cases "0 <s dmg")
      case d: True
      show ?thesis
      proof (cases "isKingTowerDestroyed towers")
        case True
        with False d assms show ?thesis
          by (simp add: onEnemyTick_def Let_def sim app drawCheck_early)
      next
        case nd: False
        with False d show ?thesis
          by (simp add: onEnemyTick_def Let_def sim app drawCheck_early)
      qed
    next
      case d: False
      with False show ?thesis
        by (simp add: onEnemyTick_def Let_def sim app drawCheck_early)
    qed
  qed
qed

lemma step_continues:
  assumes "ev \<noteq> Quit"
    "\<not> isKingTowerDestroyed (PlayerTowers (state (battleOf (step cfg b (ev, rnd, False)))))"
    "\<not> isKingTowerDestroyed (EnemyTowers (state (battleOf (step cfg b (ev, rnd, False)))))"
  shows "step cfg b (ev, rnd, False) = Continue (battleOf (step cfg b (ev, rnd, False)))"
proof (cases ev)
  case Quit
  with assms(1) show ?thesis by simp
next
  case (Input input)
  with assms(3) show ?thesis using onInput_continues [of cfg rnd input b] by (simp add: step_Input)
next
  case ElixirTick
  then show ?thesis by (simp add: step_ElixirTick onElixirTick_def Let_def drawCheck_early)
next
  case EnemyTick
  with assms(2) show ?thesis using onEnemyTick_continues [of cfg rnd b] by (simp add: step_EnemyTick)
qed

text \<open>
  Claim C4. \<open>isKingTowerDestroyed\<close> holds exactly when a King Tower of the
  slice has hit points of 0 or less; for a side made of Guard Tower 1, Guard
  Tower 2 and King Tower, exactly when the King Tower has. An iteration returns
  with the player's win only when the opponent's King Tower is destroyed, and
  with the opponent's win only when the player's is. When an iteration, for an
  event other than the surrender and before the time limit, leaves both King
  Towers standing, the loop continues; in particular when it leaves a side with
  both guard towers at 0 and hit points on its King Tower, the other King Tower
  standing.
\<close>

theorem king_tower_decides:
  "(isKingTowerDestroyed ts \<longleftrightarrow> (\<exists>t\<in>set ts. Type t = ''King Tower'' \<and> sint (HP t) \<le> 0))
   \<and> (Type g1 = ''Guard Tower 1'' \<and> Type g2 = ''Guard Tower 2'' \<and> Type k = ''King Tower''
        \<longrightarrow> (isKingTowerDestroyed [g1, g2, k] \<longleftrightarrow> sint (HP k) \<le> 0))
   \<and> (step cfg b e = Return PlayerWin b' \<longrightarrow> isKingTowerDestroyed (EnemyTowers (state b')))
   \<and> (step cfg b e = Return OpponentWin b' \<longrightarrow> isKingTowerDestroyed (PlayerTowers (state b')))
   \<and> (Type g1 = ''Guard Tower 1'' \<and> Type g2 = ''Guard Tower 2'' \<and> Type k = ''King Tower''
        \<and> HP g1 = 0 \<and> HP g2 = 0 \<and> 0 < sint (HP k)
        \<longrightarrow> (EnemyTowers (state b') = [g1, g2, k] \<longrightarrow> step cfg b e \<noteq> Return PlayerWin b')
          \<and> (PlayerTowers (state b') = [g1, g2, k] \<longrightarrow> step cfg b e \<noteq> Return OpponentWin b'))
   \<and> (ev \<noteq> Quit
        \<and> \<not> isKingTowerDestroyed (PlayerTowers (state (battleOf (step cfg b (ev, rnd, False)))))
        \<and> \<not> isKingTowerDestroyed (EnemyTowers (state (battleOf (step cfg b (ev, rnd, False)))))
        \<longrightarrow> step cfg b (ev, rnd, False) = Continue (battleOf (step cfg b (ev, rnd, False))))
   \<and> (ev \<noteq> Quit
        \<and> Type g1 = ''Guard Tower 1'' \<and> Type g2 = ''Guard Tower 2'' \<and> Type k = ''King Tower''
        \<and> HP g1 = 0 \<and> HP g2 = 0 \<and> 0 < sint (HP k)
        \<and> ((EnemyTowers (state (battleOf (step cfg b (ev, rnd, False)))) = [g1, g2, k]
             \<and> \<not> isKingTowerDestroyed (PlayerTowers (state (battleOf (step cfg b (ev, rnd, False))))))
           \<or> (PlayerTowers (state (battleOf (step cfg b (ev, rnd, False)))) = [g1, g2, k]
             \<and> \<not> isKingTowerDestroyed (EnemyTowers (state (battleOf (step cfg b (ev, rnd, False)))))))
        \<longrightarrow> step cfg b (ev, rnd, False) = Continue (battleOf (step cfg b (ev, rnd, False))))"
proof -
  let ?r = "step cfg b (ev, rnd, False)"
  have a: "isKingTowerDestroyed ts \<longleftrightarrow> (\<exists>t\<in>set ts. Type t = ''King Tower'' \<and> sint (HP t) \<le> 0)"
    by (rule isKingTowerDestroyed_iff)
  have b: "Type g1 = ''Guard Tower 1'' \<and> Type g2 = ''Guard Tower 2'' \<and> Type k = ''King Tower''
        \<longrightarrow> (isKingTowerDestroyed [g1, g2, k] \<longleftrightarrow> sint (HP k) \<le> 0)"
    using king_of_three by blast
  have c: "step cfg b e = Return PlayerWin b' \<longrightarrow> isKingTowerDestroyed (EnemyTowers (state b'))"
    using step_PlayerWin by blast
  have d: "step cfg b e = Return OpponentWin b' \<longrightarrow> isKingTowerDestroyed (PlayerTowers (state b'))"
    using step_OpponentWin by blast
  have e: "Type g1 = ''Guard Tower 1'' \<and> Type g2 = ''Guard Tower 2'' \<and> Type k = ''King Tower''
        \<and> HP g1 = 0 \<and> HP g2 = 0 \<and> 0 < sint (HP k)
        \<longrightarrow> (EnemyTowers (state b') = [g1, g2, k] \<longrightarrow> step cfg b e \<noteq> Return PlayerWin b')
          \<and> (PlayerTowers (state b') = [g1, g2, k] \<longrightarrow> step cfg b e \<noteq> Return OpponentWin b')"
  proof (intro impI conjI)
    assume h: "Type g1 = ''Guard Tower 1'' \<and> Type g2 = ''Guard Tower 2'' \<and> Type k = ''King Tower''
        \<and> HP g1 = 0 \<and> HP g2 = 0 \<and> 0 < sint (HP k)"
    then have nd: "\<not> isKingTowerDestroyed [g1, g2, k]" using king_of_three [of g1 g2 k] by simp
    { assume "EnemyTowers (state b') = [g1, g2, k]"
      with nd c show "step cfg b e \<noteq> Return PlayerWin b'" by auto }
    { assume "PlayerTowers (state b') = [g1, g2, k]"
      with nd d show "step cfg b e \<noteq> Return OpponentWin b'" by auto }
  qed
  have f: "ev \<noteq> Quit
        \<and> \<not> isKingTowerDestroyed (PlayerTowers (state (battleOf ?r)))
        \<and> \<not> isKingTowerDestroyed (EnemyTowers (state (battleOf ?r)))
        \<longrightarrow> ?r = Continue (battleOf ?r)"
    using step_continues by blast
  have g: "ev \<noteq> Quit
        \<and> Type g1 = ''Guard Tower 1'' \<and> Type g2 = ''Guard Tower 2'' \<and> Type k = ''King Tower''
        \<and> HP g1 = 0 \<and> HP g2 = 0 \<and> 0 < sint (HP k)
        \<and> ((EnemyTowers (state (battleOf ?r)) = [g1, g2, k]
             \<and> \<not> isKingTowerDestroyed (PlayerTowers (state (battleOf ?r))))
           \<or> (PlayerTowers (state (battleOf ?r)) = [g1, g2, k]
             \<and> \<not> isKingTowerDestroyed (EnemyTowers (state (battleOf ?r)))))
        \<longrightarrow> ?r = Continue (battleOf ?r)"
  proof (intro impI)
    assume h: "ev \<noteq> Quit
        \<and> Type g1 = ''Guard Tower 1'' \<and> Type g2 = ''Guard Tower 2'' \<and> Type k = ''King Tower''
        \<and> HP g1 = 0 \<and> HP g2 = 0 \<and> 0 < sint (HP k)
        \<and> ((EnemyTowers (state (battleOf ?r)) = [g1, g2, k]
             \<and> \<not> isKingTowerDestroyed (PlayerTowers (state (battleOf ?r))))
           \<or> (PlayerTowers (state (battleOf ?r)) = [g1, g2, k]
             \<and> \<not> isKingTowerDestroyed (EnemyTowers (state (battleOf ?r)))))"
    then have nd: "\<not> isKingTowerDestroyed [g1, g2, k]" using king_of_three [of g1 g2 k] by simp
    from h nd have "\<not> isKingTowerDestroyed (PlayerTowers (state (battleOf ?r)))
        \<and> \<not> isKingTowerDestroyed (EnemyTowers (state (battleOf ?r)))"
      by auto
    with h f show "?r = Continue (battleOf ?r)" by blast
  qed
  from a b c d e f g show ?thesis by blast
qed

lemma onInput_wins:
  assumes "parseInt input = Some choice" "1 \<le> sint choice"
    "sint choice \<le> int (length (playerDeck cfg))"
    "\<not> PlayerElixir (state b) < i2f (ElixirCost (lookupStats (playerDeck cfg ! nat (sint choice - 1))))"
    "isKingTowerDestroyed (fst (applyDamage (EnemyTowers (state b))
       (fst (calculateDamage (oorConv cfg) rnd (playerDeck cfg ! nat (sint choice - 1))
              (lookupStats (playerDeck cfg ! nat (sint choice - 1))) (EnemyTowers (state b))))))"
  shows "onInput cfg rnd late input b = Return PlayerWin (battleOf (onInput cfg rnd late input b))"
proof -
  obtain damage cc tc where calc:
    "calculateDamage (oorConv cfg) rnd (playerDeck cfg ! nat (sint choice - 1))
       (lookupStats (playerDeck cfg ! nat (sint choice - 1))) (EnemyTowers (state b)) = (damage, cc, tc)"
    by (metis prod_cases3)
  obtain towers res where app: "applyDamage (EnemyTowers (state b)) damage = (towers, res)"
    by (metis surj_pair)
  from assms(5) have "isKingTowerDestroyed towers" by (simp add: calc app)
  with assms(1-4) show ?thesis
    by (simp add: onInput_def Let_def word_sless_alt calc app)
qed

lemma lastStand_step:
  "step sampleConfig lastStand (Input ''1'', sampleDraws, False) =
     Return PlayerWin (battleOf (step sampleConfig lastStand (Input ''1'', sampleDraws, False)))"
proof -
  have crit: "\<forall>t\<in>set (EnemyTowers (state lastStand)). CRIT t \<le> 1 / 2"
    by (simp add: lastStand_def initialBattle_def initialState_def fl64_005 fl64_01)
  have card: "playerDeck sampleConfig ! nat (sint (1 :: i64) - 1) = \<lparr>Name = ''Knight'', Level = 1\<rparr>"
    by (simp add: sampleConfig_def)
  have cost: "ElixirCost (lookupStats \<lparr>Name = ''Knight'', Level = 1\<rparr>) = 3"
    by (simp add: lookupStats_def cardDatabase_def)
  have calc: "calculateDamage (oorConv sampleConfig) sampleDraws \<lparr>Name = ''Knight'', Level = 1\<rparr>
      (lookupStats \<lparr>Name = ''Knight'', Level = 1\<rparr>) (EnemyTowers (state lastStand)) = (200, False, False)"
    by (rule calc_knight [OF crit])
  have app: "isKingTowerDestroyed (fst (applyDamage (EnemyTowers (state lastStand)) 200))"
    by (simp add: lastStand_def initialBattle_def initialState_def applyDamage_def targetOrder_def
        damaged_def Let_def word_sless_alt word_sle_eq)
  have el: "PlayerElixir (state lastStand) = 10"
    by (simp add: lastStand_def initialBattle_def initialState_def)
  show ?thesis
    unfolding step_Input
  proof (rule onInput_wins [where choice = 1])
    show "parseInt ''1'' = Some 1" by (rule parse_samples)
    show "1 \<le> sint (1 :: i64)" by simp
    show "sint (1 :: i64) \<le> int (length (playerDeck sampleConfig))" by (simp add: sampleConfig_def)
    show "\<not> PlayerElixir (state lastStand)
        < i2f (ElixirCost (lookupStats (playerDeck sampleConfig ! nat (sint (1 :: i64) - 1))))"
      unfolding card cost el by (simp add: i2f_costs)
    show "isKingTowerDestroyed (fst (applyDamage (EnemyTowers (state lastStand))
       (fst (calculateDamage (oorConv sampleConfig) sampleDraws
              (playerDeck sampleConfig ! nat (sint (1 :: i64) - 1))
              (lookupStats (playerDeck sampleConfig ! nat (sint (1 :: i64) - 1)))
              (EnemyTowers (state lastStand))))))"
      unfolding card calc fst_conv by (rule app)
  qed
qed

theorem king_tower_decides_witness:
  "isKingTowerDestroyed
     (EnemyTowers (state (battleOf (step sampleConfig lastStand (Input ''1'', sampleDraws, False)))))
   \<and> \<not> isKingTowerDestroyed (EnemyTowers (state lastStand))
   \<and> step sampleConfig lastStand (ElixirTick, sampleDraws, False)
       = Continue (battleOf (step sampleConfig lastStand (ElixirTick, sampleDraws, False)))"
proof -
  let ?b' = "battleOf (step sampleConfig lastStand (Input ''1'', sampleDraws, False))"
  let ?g1 = "\<lparr>Type = ''Guard Tower 1'', HP = 0, ATK = 300, DEF = 100, CRIT = fl64 (5 / 100), MaxHP = 1000\<rparr>"
  let ?g2 = "\<lparr>Type = ''Guard Tower 2'', HP = 0, ATK = 300, DEF = 100, CRIT = fl64 (5 / 100), MaxHP = 1000\<rparr>"
  let ?k = "\<lparr>Type = ''King Tower'', HP = 1, ATK = 500, DEF = 300, CRIT = fl64 (1 / 10), MaxHP = 2000\<rparr>"
  let ?r = "step sampleConfig lastStand (ElixirTick, sampleDraws, False)"
  note th = king_tower_decides [of "EnemyTowers (state lastStand)" ?g1 ?g2 ?k sampleConfig lastStand
      "(Input ''1'', sampleDraws, False)" ?b' ElixirTick sampleDraws]
  have ts: "EnemyTowers (state lastStand) = [?g1, ?g2, ?k]"
    by (simp add: lastStand_def initialBattle_def initialState_def)
  have h: "Type ?g1 = ''Guard Tower 1'' \<and> Type ?g2 = ''Guard Tower 2'' \<and> Type ?k = ''King Tower''"
    by simp
  have hk: "\<not> sint (HP ?k) \<le> 0" "HP ?g1 = 0 \<and> HP ?g2 = 0 \<and> 0 < sint (HP ?k)" by simp_all
  have after: "EnemyTowers (state (battleOf ?r)) = [?g1, ?g2, ?k]"
      "\<not> isKingTowerDestroyed (PlayerTowers (state (battleOf ?r)))"
    unfolding step_ElixirTick onElixirTick_state
    by (simp_all add: lastStand_def initialBattle_def initialState_def word_sle_eq)
  have ev: "ElixirTick \<noteq> Quit" by simp
  from th lastStand_step have "isKingTowerDestroyed (EnemyTowers (state ?b'))" by blast
  moreover from th h hk have "\<not> isKingTowerDestroyed [?g1, ?g2, ?k]" by blast
  moreover from th ev h hk(2) after have "?r = Continue (battleOf ?r)" by blast
  ultimately show ?thesis unfolding ts by blast
qed

section \<open>Properties of the reading of the choice\<close>












lemma trim_zero: "trimSpace ''0'' = ''0''"
  by (simp add: trimSpace_def trimLeft.simps [of "''0''"] trimRight.simps [of "''0''"]
      leadingSpace_def trailingSpace_def whiteSpace_def)

text \<open>
  Claim C9 on the code. The goroutine sends every line on \<open>inputChan\<close> before
  it tests whether the line is \<open>0\<close>: for the line \<open>0\<close> the loop receives the
  player-input event first and the surrender signal after it. The input event
  parses as the choice 0, below 1: the loop reports an invalid choice; then the
  surrender appends \<open>Player surrendered\<close>, stops the tickers and returns.
\<close>

theorem surrender_line_is_also_input:
  "readerMessages (''0'' # rest) = [Input ''0'', Quit]
   \<and> playGameLoop cfg b [(Input ''0'', rnd, late), (Quit, rnd', late')] =
       Return Surrender
         (b\<lparr>stdout := stdout b @
            [Line (''Invalid choice. Please select a number from 1 to '' @
                   show_int (int (length (playerDeck cfg)))),
             Line ''You surrendered!''],
            Actions := Actions b @ [''Player surrendered''],
            tickersStopped := True\<rparr>)"
  by (simp add: trim_zero step_Input step_Quit onInput_def onQuit_def Let_def
      parse_samples word_sless_alt)








end
